theory Spec2Isabelle
  imports Complex_Main
begin

section \<open>The search agent of \<^verbatim>\<open>src/agents/search/search_agent.js\<close>\<close>

text \<open>
  A shallow embedding of the class \<^verbatim>\<open>SearchAgent\<close>. JavaScript numbers are read as real
  numbers, with a separate value for \<^verbatim>\<open>NaN\<close> where the code can produce it; the rounding
  of IEEE doubles is written out for the cosine similarity, in a second definition, where
  a claim depends on it. Strings are lists of
  8-bit characters: the model follows the source on ASCII text, where \<^verbatim>\<open>toLowerCase\<close>,
  \<^verbatim>\<open>\w\<close>, \<^verbatim>\<open>\s\<close> and \<^verbatim>\<open>\d\<close> have the meaning written out below.
  Thrown errors and rejected promises are values of type \<open>error\<close>; the calls to the
  document store and to the encoder are recorded in a log that is passed along.
\<close>

subsection \<open>Characters and strings\<close>

definition upper_chars :: string where
  "upper_chars = ''ABCDEFGHIJKLMNOPQRSTUVWXYZ''"

definition lower_chars :: string where
  "lower_chars = ''abcdefghijklmnopqrstuvwxyz''"

definition digit_chars :: string where
  "digit_chars = ''0123456789''"

text \<open>The ASCII members of \<^verbatim>\<open>\s\<close>: space, tab, line feed, vertical tab, form feed, carriage return.\<close>

definition space_chars :: string where
  "space_chars = [CHR '' '', CHR 0x09, CHR 0x0A, CHR 0x0B, CHR 0x0C, CHR 0x0D]"

definition is_upper :: "char \<Rightarrow> bool" where
  "is_upper c = (c \<in> set upper_chars)"

definition is_lower :: "char \<Rightarrow> bool" where
  "is_lower c = (c \<in> set lower_chars)"

definition is_digit :: "char \<Rightarrow> bool" where
  "is_digit c = (c \<in> set digit_chars)"

definition is_space :: "char \<Rightarrow> bool" where
  "is_space c = (c \<in> set space_chars)"

text \<open>The class \<^verbatim>\<open>\w\<close> is \<^verbatim>\<open>[A-Za-z0-9_]\<close>.\<close>

definition is_word :: "char \<Rightarrow> bool" where
  "is_word c = (is_lower c \<or> is_upper c \<or> is_digit c \<or> c = CHR ''_'')"

definition lower_char :: "char \<Rightarrow> char" where
  "lower_char c = (case map_of (zip upper_chars lower_chars) c of Some l \<Rightarrow> l | None \<Rightarrow> c)"

definition toLowerCase :: "string \<Rightarrow> string" where
  "toLowerCase s = map lower_char s"

text \<open>\<^verbatim>\<open>s.includes(sub)\<close>.\<close>

fun js_includes :: "string \<Rightarrow> string \<Rightarrow> bool" where
  "js_includes [] sub = (sub = [])"
| "js_includes (c # cs) sub = (take (length sub) (c # cs) = sub \<or> js_includes cs sub)"

text \<open>
  \<^verbatim>\<open>s.split(/[...]+/)\<close> for a character class \<open>sep\<close>: the pieces between maximal runs of
  separators, with an empty piece before a leading run and after a trailing one.
\<close>

function split_runs :: "(char \<Rightarrow> bool) \<Rightarrow> string \<Rightarrow> string list" where
  "split_runs sep [] = [[]]"
| "split_runs sep (c # cs) =
     (if sep c then [] # split_runs sep (dropWhile sep cs)
      else (case split_runs sep cs of [] \<Rightarrow> [[c]] | w # ws \<Rightarrow> (c # w) # ws))"
  by pat_completeness auto
termination
  by (relation "measure (\<lambda>(sep, s). length s)") (auto simp: le_imp_less_Suc length_dropWhile_le)

text \<open>\<^verbatim>\<open>s.trim()\<close>.\<close>

definition trim :: "string \<Rightarrow> string" where
  "trim s = rev (dropWhile is_space (rev (dropWhile is_space s)))"

subsection \<open>JavaScript values\<close>

datatype jsnum = Num real | NaN

datatype jsvalue = JUndefined | JNull | JBool bool | JNumber jsnum | JString string

fun truthy :: "jsvalue \<Rightarrow> bool" where
  "truthy JUndefined = False"
| "truthy JNull = False"
| "truthy (JBool b) = b"
| "truthy (JNumber (Num r)) = (r \<noteq> 0)"
| "truthy (JNumber NaN) = False"
| "truthy (JString s) = (s \<noteq> [])"

type_synonym vector = "real list"

datatype error =
    DatabaseRequired        \<comment> \<open>\<^verbatim>\<open>Database connection required for search\<close>\<close>
  | VectorizerRequired      \<comment> \<open>\<^verbatim>\<open>Vectorizer required for vector search\<close>\<close>
  | QueryRequired           \<comment> \<open>\<^verbatim>\<open>Search query is required\<close>\<close>
  | QueryMustBeString       \<comment> \<open>\<^verbatim>\<open>Search query must be a string\<close>\<close>
  | BaseValidation string   \<comment> \<open>thrown by the validation of the base class\<close>
  | TypeError               \<comment> \<open>a method called on a value that has none\<close>
  | StoreUnreachable        \<comment> \<open>a store call rejected by the driver\<close>
  | EncodeFailed string     \<comment> \<open>\<^verbatim>\<open>vectorizer.encode\<close> rejected\<close>

subsection \<open>Documents, queries, the store and the agent\<close>

record entity =
  ent_text :: string
  ent_type :: string

text \<open>
  A stored document of the collection \<^verbatim>\<open>agent_results\<close>. \<open>extracted_text\<close> is
  \<^verbatim>\<open>output.extracted_text\<close>, \<open>analysis_entities\<close> is \<^verbatim>\<open>output.analysis.entities\<close>
  (\<open>None\<close> when \<^verbatim>\<open>analysis\<close> or its \<^verbatim>\<open>entities\<close> is missing).
\<close>

record document =
  doc_id :: nat
  doc_agent :: string
  extracted_text :: "string option"
  analysis_entities :: "entity list option"
  doc_metadata :: string
  created_at :: int
  vector_embedding :: "vector option"

datatype intent = INFORMATION | HOW_TO | DEFINITION | TIME | LOCATION

record processed_query =
  original :: string
  normalized :: string
  query_keywords :: "string list"
  entities :: "entity list"
  query_intent :: intent
  query_vector :: "vector option"

record filters =
  filter_agent :: "string option"
  filter_dateRange :: "(int \<times> int) option"

record input =
  query :: jsvalue
  input_filters :: "filters option"

text \<open>
  The query object handed to the store: the \<^verbatim>\<open>$or\<close> clause of the text search (the
  normalized query as a regular expression and the keyword expressions), and the two
  optional filters.
\<close>

record db_query =
  q_text :: "(string \<times> string list) option"
  q_agent :: "string option"
  q_created_at :: "(int \<times> int) option"

record vector_stage =
  queryVector :: "vector option"
  numCandidates :: real
  stage_limit :: real

text \<open>
  The store handle \<^verbatim>\<open>this.db\<close>. What the server evaluates is a parameter of the handle:
  \<open>regex_matches\<close> decides the \<^verbatim>\<open>$or\<close> clause of a text query on a document,
  \<open>vector_index_search\<close> answers a \<^verbatim>\<open>$vectorSearch\<close> stage over the documents that pass the
  filters with pairs of score and document. \<open>collection_infos\<close> is what
  \<^verbatim>\<open>listCollections({name: 'agent_results'})\<close> returns: for each collection the names in its
  \<^verbatim>\<open>options.indexes\<close>, \<open>None\<close> when \<^verbatim>\<open>options\<close> or \<^verbatim>\<open>indexes\<close> is missing. Every call on
  a handle that is not \<open>online\<close> is rejected; a server that rejects one query and answers
  another (a query text that is not a regular expression) is not modelled.
\<close>

record db =
  online :: bool
  collection_infos :: "string list option list"
  regex_matches :: "string \<Rightarrow> string list \<Rightarrow> document \<Rightarrow> bool"
  vector_index_search :: "vector_stage \<Rightarrow> document list \<Rightarrow> (real \<times> document) list"

datatype io_event =
    ListCollections
  | Find db_query real
  | Aggregate vector_stage db_query
  | Encode string

text \<open>The world outside the agent: the contents of the collection and the calls made so far.\<close>

record world =
  stored :: "document list"
  io_log :: "io_event list"

record agent =
  agent_db :: "db option"
  useVectorSearch :: bool
  vectorizer :: "(string \<Rightarrow> error + vector) option"
  maxResults :: real
  minScore :: real

record options =
  opt_db :: "db option"
  opt_useVectorSearch :: "bool option"
  opt_vectorizer :: "(string \<Rightarrow> error + vector) option"
  opt_maxResults :: "jsnum option"
  opt_minScore :: "jsnum option"

text \<open>\<^verbatim>\<open>options.x || d\<close> for a numeric option: \<^verbatim>\<open>undefined\<close>, \<^verbatim>\<open>0\<close> and \<^verbatim>\<open>NaN\<close> are falsy.\<close>

fun or_default :: "jsnum option \<Rightarrow> real \<Rightarrow> real" where
  "or_default (Some (Num r)) d = (if r = 0 then d else r)"
| "or_default (Some NaN) d = d"
| "or_default None d = d"

definition SearchAgent :: "options \<Rightarrow> agent" where
  "SearchAgent opts =
     \<lparr> agent_db = opt_db opts,
       useVectorSearch = (case opt_useVectorSearch opts of Some b \<Rightarrow> b | None \<Rightarrow> False),
       vectorizer = opt_vectorizer opts,
       maxResults = or_default (opt_maxResults opts) 10,
       minScore = or_default (opt_minScore opts) 0.5 \<rparr>"

subsection \<open>Effects\<close>

text \<open>
  An asynchronous method is a function from the world to its outcome and the world after it:
  \<open>Inl\<close> is a rejection, which every \<^verbatim>\<open>await\<close> passes on (the class has no \<^verbatim>\<open>try\<close>).
\<close>

type_synonym 'a io = "world \<Rightarrow> (error + 'a) \<times> world"

definition ok :: "'a \<Rightarrow> 'a io" where
  "ok x w = (Inr x, w)"

definition throw :: "error \<Rightarrow> 'a io" where
  "throw e w = (Inl e, w)"

definition io_bind :: "'a io \<Rightarrow> ('a \<Rightarrow> 'b io) \<Rightarrow> 'b io" where
  "io_bind m f w = (case m w of (Inl e, w1) \<Rightarrow> (Inl e, w1) | (Inr x, w1) \<Rightarrow> f x w1)"

definition record_event :: "io_event \<Rightarrow> world \<Rightarrow> world" where
  "record_event ev w = w\<lparr>io_log := io_log w @ [ev]\<rparr>"

text \<open>
  \<^verbatim>\<open>Promise.all\<close> over promises started in list order: every one of them runs, and the
  result is rejected when one of them is (here with the first rejection in list order).
\<close>

fun promise_all :: "'a io list \<Rightarrow> 'a list io" where
  "promise_all [] w = (Inr [], w)"
| "promise_all (m # ms) w =
     (case m w of (r, w1) \<Rightarrow>
        (case promise_all ms w1 of (rs, w2) \<Rightarrow>
           ((case r of Inl e \<Rightarrow> Inl e
             | Inr x \<Rightarrow> (case rs of Inl e \<Rightarrow> Inl e | Inr xs \<Rightarrow> Inr (x # xs))), w2)))"

text \<open>\<^verbatim>\<open>this.vectorizer.encode(text)\<close>.\<close>

definition encode :: "agent \<Rightarrow> string \<Rightarrow> vector io" where
  "encode a text w =
     (case vectorizer a of
        None \<Rightarrow> (Inl TypeError, w)
      | Some enc \<Rightarrow> (enc text, record_event (Encode text) w))"

subsection \<open>The store driver\<close>

definition passes_filters :: "db_query \<Rightarrow> document \<Rightarrow> bool" where
  "passes_filters q d =
     ((case q_agent q of None \<Rightarrow> True | Some a \<Rightarrow> doc_agent d = a) \<and>
      (case q_created_at q of None \<Rightarrow> True
       | Some (lo, hi) \<Rightarrow> lo \<le> created_at d \<and> created_at d \<le> hi))"

definition matches :: "db \<Rightarrow> db_query \<Rightarrow> document \<Rightarrow> bool" where
  "matches h q d =
     ((case q_text q of None \<Rightarrow> True | Some (rx, kws) \<Rightarrow> regex_matches h rx kws d) \<and>
      passes_filters q d)"

text \<open>
  \<^verbatim>\<open>cursor.limit(n)\<close>: zero means no limit, a negative limit counts as its absolute value.
\<close>

definition cursor_limit :: "real \<Rightarrow> 'a list \<Rightarrow> 'a list" where
  "cursor_limit n xs = (if n = 0 then xs else take (nat \<lfloor>\<bar>n\<bar>\<rfloor>) xs)"

text \<open>\<^verbatim>\<open>db.collection('agent_results').find(q).limit(n).toArray()\<close>.\<close>

definition db_find :: "db \<Rightarrow> db_query \<Rightarrow> real \<Rightarrow> document list io" where
  "db_find h q n w =
     ((if online h then Inr (cursor_limit n (filter (matches h q) (stored w)))
       else Inl StoreUnreachable),
      record_event (Find q n) w)"

text \<open>\<^verbatim>\<open>db.listCollections({ name: 'agent_results' }).toArray()\<close>.\<close>

definition db_listCollections :: "db \<Rightarrow> string list option list io" where
  "db_listCollections h w =
     ((if online h then Inr (collection_infos h) else Inl StoreUnreachable),
      record_event ListCollections w)"

text \<open>\<^verbatim>\<open>db.collection('agent_results').aggregate([{$match: ...}, {$project: ...}]).toArray()\<close>.\<close>

definition db_aggregate :: "db \<Rightarrow> vector_stage \<Rightarrow> db_query \<Rightarrow> (real \<times> document) list io" where
  "db_aggregate h stage q w =
     ((if online h then Inr (vector_index_search h stage (filter (passes_filters q) (stored w)))
       else Inl StoreUnreachable),
      record_event (Aggregate stage q) w)"

definition no_conditions :: db_query where
  "no_conditions = \<lparr> q_text = None, q_agent = None, q_created_at = None \<rparr>"

text \<open>The block \<^verbatim>\<open>if (input.filters) { ... }\<close>, the same in the three searches.\<close>

definition add_filters :: "input \<Rightarrow> db_query \<Rightarrow> db_query" where
  "add_filters i q =
     (case input_filters i of
        None \<Rightarrow> q
      | Some f \<Rightarrow>
          (let q1 = (case filter_agent f of
                       None \<Rightarrow> q
                     | Some a \<Rightarrow> if a = [] then q else q\<lparr>q_agent := Some a\<rparr>)
           in case filter_dateRange f of
                None \<Rightarrow> q1
              | Some r \<Rightarrow> q1\<lparr>q_created_at := Some r\<rparr>))"

subsection \<open>Query processing\<close>

text \<open>
  \<^verbatim>\<open>query.toLowerCase().replace(/[^\w\s]/g, '').split(/\s+/).filter(word => word.length > 2)\<close>
\<close>

definition extract_keywords :: "string \<Rightarrow> string list" where
  "extract_keywords q =
     filter (\<lambda>word. length word > 2)
       (split_runs is_space (filter (\<lambda>c. is_word c \<or> is_space c) (toLowerCase q)))"

text \<open>
  The three entity patterns. A matcher is given the character before the position and the
  rest of the string from the position on, and returns what \<^verbatim>\<open>query.match(pattern)\<close> holds
  for a match starting there: the matched text, followed by the text of each group.
  \<^verbatim>\<open>\b\<close> holds between a word character and a character that is none (or an end of the
  string). In these patterns a run \<^verbatim>\<open>[a-z]+\<close> is followed by a space or by \<^verbatim>\<open>\b\<close>, so only
  the longest run can match.
\<close>

definition word_before :: "char option \<Rightarrow> bool" where
  "word_before prev = (case prev of None \<Rightarrow> False | Some c \<Rightarrow> is_word c)"

definition word_at :: "string \<Rightarrow> bool" where
  "word_at s = (case s of [] \<Rightarrow> False | c # _ \<Rightarrow> is_word c)"

text \<open>\<^verbatim>\<open>/\b\d{4}-\d{2}-\d{2}\b/\<close>\<close>

definition match_date :: "char option \<Rightarrow> string \<Rightarrow> string list option" where
  "match_date prev s =
     (let m = take 10 s in
      if length m = 10 \<and> \<not> word_before prev \<and>
         list_all is_digit (take 4 m) \<and> m ! 4 = CHR ''-'' \<and>
         list_all is_digit (take 2 (drop 5 m)) \<and> m ! 7 = CHR ''-'' \<and>
         list_all is_digit (drop 8 m) \<and> \<not> word_at (drop 10 s)
      then Some [m] else None)"

text \<open>\<^verbatim>\<open>[A-Z][a-z]+\<close> at the head of a string: the match and the rest.\<close>

definition cap_word :: "string \<Rightarrow> (string \<times> string) option" where
  "cap_word s =
     (case s of
        [] \<Rightarrow> None
      | c # cs \<Rightarrow>
          if is_upper c \<and> takeWhile is_lower cs \<noteq> []
          then Some (c # takeWhile is_lower cs, dropWhile is_lower cs) else None)"

text \<open>\<^verbatim>\<open>/\b[A-Z][a-z]+ [A-Z][a-z]+\b/\<close>\<close>

definition match_person :: "char option \<Rightarrow> string \<Rightarrow> string list option" where
  "match_person prev s =
     (if word_before prev then None
      else case cap_word s of
             None \<Rightarrow> None
           | Some (w1, r1) \<Rightarrow>
               (case r1 of
                  [] \<Rightarrow> None
                | sp # r2 \<Rightarrow>
                    if sp \<noteq> CHR '' '' then None
                    else case cap_word r2 of
                           None \<Rightarrow> None
                         | Some (w2, r3) \<Rightarrow>
                             if word_at r3 then None else Some [w1 @ CHR '' '' # w2]))"

text \<open>\<^verbatim>\<open>(Inc|Corp|LLC|Ltd)\b\<close>: the first alternative, in this order, that matches.\<close>

definition match_suffix :: "string \<Rightarrow> string option" where
  "match_suffix r =
     find (\<lambda>suf. take (length suf) r = suf \<and> \<not> word_at (drop (length suf) r))
       [''Inc'', ''Corp'', ''LLC'', ''Ltd'']"

text \<open>\<^verbatim>\<open>/\b[A-Z][a-z]+ (Inc|Corp|LLC|Ltd)\b/\<close>\<close>

definition match_org :: "char option \<Rightarrow> string \<Rightarrow> string list option" where
  "match_org prev s =
     (if word_before prev then None
      else case cap_word s of
             None \<Rightarrow> None
           | Some (w1, r1) \<Rightarrow>
               (case r1 of
                  [] \<Rightarrow> None
                | sp # r2 \<Rightarrow>
                    if sp \<noteq> CHR '' '' then None
                    else case match_suffix r2 of
                           None \<Rightarrow> None
                         | Some suf \<Rightarrow> Some [w1 @ CHR '' '' # suf, suf]))"

text \<open>The leftmost match of a pattern without the \<^verbatim>\<open>g\<close> flag.\<close>

fun first_match ::
  "(char option \<Rightarrow> string \<Rightarrow> string list option) \<Rightarrow> char option \<Rightarrow> string \<Rightarrow> string list option"
where
  "first_match m prev [] = m prev []"
| "first_match m prev (c # cs) =
     (case m prev (c # cs) of
        Some r \<Rightarrow> Some r
      | None \<Rightarrow> first_match m (Some c) cs)"

definition entityPatterns :: "((char option \<Rightarrow> string \<Rightarrow> string list option) \<times> string) list" where
  "entityPatterns =
     [(match_date, ''DATE''), (match_person, ''PERSON''), (match_org, ''ORGANIZATION'')]"

definition extract_entities :: "string \<Rightarrow> entity list" where
  "extract_entities q =
     concat (map (\<lambda>(pattern, type).
                    case first_match pattern None q of
                      None \<Rightarrow> []
                    | Some ms \<Rightarrow> map (\<lambda>m. \<lparr> ent_text = m, ent_type = type \<rparr>) ms)
                 entityPatterns)"

definition detect_intent :: "string \<Rightarrow> intent" where
  "detect_intent q =
     (if js_includes (toLowerCase q) ''how'' then HOW_TO
      else if js_includes (toLowerCase q) ''what'' then DEFINITION
      else if js_includes (toLowerCase q) ''when'' then TIME
      else if js_includes (toLowerCase q) ''where'' then LOCATION
      else INFORMATION)"

definition processQuery :: "agent \<Rightarrow> string \<Rightarrow> processed_query io" where
  "processQuery a q =
     io_bind (case vectorizer a of
                None \<Rightarrow> ok None
              | Some _ \<Rightarrow> io_bind (encode a q) (\<lambda>v. ok (Some v)))
       (\<lambda>vec. ok \<lparr> original = q,
                   normalized = toLowerCase q,
                   query_keywords = extract_keywords q,
                   entities = extract_entities q,
                   query_intent = detect_intent q,
                   query_vector = vec \<rparr>)"

subsection \<open>Text search\<close>

fun js_add :: "jsnum \<Rightarrow> jsnum \<Rightarrow> jsnum" where
  "js_add (Num a) (Num b) = Num (a + b)"
| "js_add _ _ = NaN"

fun js_mul :: "jsnum \<Rightarrow> jsnum \<Rightarrow> jsnum" where
  "js_mul (Num a) (Num b) = Num (a * b)"
| "js_mul _ _ = NaN"

text \<open>\<^verbatim>\<open>Math.min(1, x)\<close>\<close>

fun js_min1 :: "jsnum \<Rightarrow> jsnum" where
  "js_min1 (Num a) = Num (min 1 a)"
| "js_min1 NaN = NaN"

text \<open>\<^verbatim>\<open>x >= m\<close> for a number \<open>m\<close>: false when \<open>x\<close> is \<^verbatim>\<open>NaN\<close>.\<close>

fun js_ge :: "jsnum \<Rightarrow> real \<Rightarrow> bool" where
  "js_ge (Num a) m = (a \<ge> m)"
| "js_ge NaN m = False"

text \<open>
  \<^verbatim>\<open>xs.filter(p).length / xs.length\<close>: the quotient \<^verbatim>\<open>0 / 0\<close> of an empty array is \<^verbatim>\<open>NaN\<close>.
\<close>

definition matched_fraction :: "('a \<Rightarrow> bool) \<Rightarrow> 'a list \<Rightarrow> jsnum" where
  "matched_fraction p xs =
     (if xs = [] then NaN else Num (real (length (filter p xs)) / real (length xs)))"

definition calculateTextScore :: "document \<Rightarrow> processed_query \<Rightarrow> jsnum" where
  "calculateTextScore result pq =
     (let has_text = (case extracted_text result of None \<Rightarrow> False | Some t \<Rightarrow> t \<noteq> []);
          text = toLowerCase (case extracted_text result of None \<Rightarrow> [] | Some t \<Rightarrow> t);
          score0 = Num 0;
          score1 = (if has_text \<and> js_includes text (normalized pq)
                    then js_add score0 (Num 0.5) else score0);
          score2 = (if has_text
                    then js_add score1
                           (js_mul (matched_fraction (\<lambda>k. js_includes text k) (query_keywords pq))
                                   (Num 0.3))
                    else score1);
          score3 = (case analysis_entities result of
                      None \<Rightarrow> score2
                    | Some es \<Rightarrow>
                        (let resultEntities = map (\<lambda>e. toLowerCase (ent_text e)) es
                         in if length (entities pq) > 0
                            then js_add score2
                                   (js_mul (matched_fraction
                                              (\<lambda>e. toLowerCase (ent_text e) \<in> set resultEntities)
                                              (entities pq))
                                           (Num 0.2))
                            else score2))
      in js_min1 score3)"

type_synonym scored = "document \<times> jsnum"

definition performTextSearch :: "agent \<Rightarrow> processed_query \<Rightarrow> input \<Rightarrow> scored list io" where
  "performTextSearch a pq i =
     (case agent_db a of
        None \<Rightarrow> throw TypeError
      | Some h \<Rightarrow>
          io_bind (db_find h
                     (add_filters i
                        \<lparr> q_text = Some (normalized pq, query_keywords pq),
                          q_agent = None, q_created_at = None \<rparr>)
                     (maxResults a))
            (\<lambda>results. ok (map (\<lambda>result. (result, calculateTextScore result pq)) results)))"

subsection \<open>Vector search\<close>

text \<open>The loop of \<^verbatim>\<open>calculateCosineSimilarity\<close> over the indices of two vectors of one length.\<close>

fun cosine_loop :: "vector \<Rightarrow> vector \<Rightarrow> real \<times> real \<times> real \<Rightarrow> real \<times> real \<times> real" where
  "cosine_loop (x # xs) (y # ys) (dotProduct, mag1, mag2) =
     cosine_loop xs ys (dotProduct + x * y, mag1 + x * x, mag2 + y * y)"
| "cosine_loop _ _ acc = acc"

definition calculateCosineSimilarity :: "vector option \<Rightarrow> vector option \<Rightarrow> real" where
  "calculateCosineSimilarity vec1 vec2 =
     (case (vec1, vec2) of
        (Some v1, Some v2) \<Rightarrow>
          if length v1 \<noteq> length v2 then 0
          else (case cosine_loop v1 v2 (0, 0, 0) of
                  (dotProduct, m1, m2) \<Rightarrow>
                    (let mag1 = sqrt m1; mag2 = sqrt m2
                     in if mag1 = 0 \<or> mag2 = 0 then 0 else dotProduct / (mag1 * mag2)))
      | _ \<Rightarrow> 0)"

text \<open>
  \<^verbatim>\<open>xs.filter(x => x.score >= minScore).sort((a, b) => b.score - a.score)\<close>: the sort is
  stable, and every score it compares is a number, since \<^verbatim>\<open>NaN >= minScore\<close> is false.
\<close>

fun score_value :: "jsnum \<Rightarrow> real" where
  "score_value (Num r) = r"
| "score_value NaN = 0"

definition filter_and_sort :: "real \<Rightarrow> scored list \<Rightarrow> scored list" where
  "filter_and_sort m xs =
     sort_key (\<lambda>(d, s). - score_value s) (filter (\<lambda>(d, s). js_ge s m) xs)"

text \<open>\<^verbatim>\<open>xs.slice(0, n)\<close>: \<open>n\<close> is truncated to an integer, and counts from the end when negative.\<close>

definition js_slice0 :: "real \<Rightarrow> 'a list \<Rightarrow> 'a list" where
  "js_slice0 n xs =
     (let k = (if n < 0 then \<lceil>n\<rceil> else \<lfloor>n\<rfloor>)
      in if k < 0 then take (nat (int (length xs) + k)) xs else take (nat k) xs)"

definition hasVectorIndex :: "string list option list \<Rightarrow> bool" where
  "hasVectorIndex collections =
     (case collections of
        [] \<Rightarrow> False
      | c # _ \<Rightarrow> (case c of None \<Rightarrow> False | Some idxs \<Rightarrow> ''vector_index'' \<in> set idxs))"

definition performMongoDBVectorSearch :: "agent \<Rightarrow> processed_query \<Rightarrow> input \<Rightarrow> scored list io" where
  "performMongoDBVectorSearch a pq i =
     (case agent_db a of
        None \<Rightarrow> throw TypeError
      | Some h \<Rightarrow>
          io_bind (db_aggregate h
                     \<lparr> queryVector = query_vector pq,
                       numCandidates = maxResults a * 10,
                       stage_limit = maxResults a \<rparr>
                     (add_filters i no_conditions))
            (\<lambda>results. ok (map (\<lambda>(s, d). (d, Num s)) results)))"

text \<open>One element of \<^verbatim>\<open>documents.map(async doc => ...)\<close>.\<close>

definition backfill :: "agent \<Rightarrow> document \<Rightarrow> document io" where
  "backfill a doc =
     (case vector_embedding doc of
        Some _ \<Rightarrow> ok doc
      | None \<Rightarrow>
          io_bind (encode a (case extracted_text doc of None \<Rightarrow> [] | Some t \<Rightarrow> t))
            (\<lambda>v. ok (doc\<lparr>vector_embedding := Some v\<rparr>)))"

definition performInMemoryVectorSearch :: "agent \<Rightarrow> processed_query \<Rightarrow> input \<Rightarrow> scored list io" where
  "performInMemoryVectorSearch a pq i =
     (case agent_db a of
        None \<Rightarrow> throw TypeError
      | Some h \<Rightarrow>
          io_bind (db_find h (add_filters i no_conditions) 1000)
            (\<lambda>documents.
               io_bind (promise_all (map (backfill a) documents))
                 (\<lambda>documentsWithVectors.
                    (let scoredDocuments =
                           map (\<lambda>doc. (doc, Num (calculateCosineSimilarity (query_vector pq)
                                                    (vector_embedding doc))))
                               documentsWithVectors
                     in ok (js_slice0 (maxResults a)
                              (filter_and_sort (minScore a) scoredDocuments))))))"

definition performVectorSearch :: "agent \<Rightarrow> processed_query \<Rightarrow> input \<Rightarrow> scored list io" where
  "performVectorSearch a pq i =
     (case vectorizer a of
        None \<Rightarrow> throw VectorizerRequired
      | Some _ \<Rightarrow>
          (case agent_db a of
             None \<Rightarrow> throw TypeError
           | Some h \<Rightarrow>
               io_bind (db_listCollections h)
                 (\<lambda>collections.
                    if hasVectorIndex collections
                    then performMongoDBVectorSearch a pq i
                    else performInMemoryVectorSearch a pq i)))"

subsection \<open>Ranking and snippets\<close>

record snippet =
  snippet_text :: string
  snippet_score :: real

definition is_terminator :: "char \<Rightarrow> bool" where
  "is_terminator c = (c \<in> set ''.!?'')"

text \<open>The score a sentence has after the body of the loop over the sentences.\<close>

definition sentence_score :: "processed_query \<Rightarrow> string \<Rightarrow> real" where
  "sentence_score pq sentence =
     fold (\<lambda>keyword score.
             if js_includes (toLowerCase sentence) keyword then score + 0.1 else score)
          (query_keywords pq)
          (if js_includes (toLowerCase sentence) (normalized pq) then 0 + 0.5 else 0)"

definition extractRelevantSnippets :: "document \<Rightarrow> processed_query \<Rightarrow> snippet list" where
  "extractRelevantSnippets result pq =
     (let text = (case extracted_text result of None \<Rightarrow> [] | Some t \<Rightarrow> t);
          sentences = filter (\<lambda>s. length (trim s) > 0) (split_runs is_terminator text);
          snippets = map (\<lambda>sentence. \<lparr> snippet_text = trim sentence,
                                        snippet_score = sentence_score pq sentence \<rparr>)
                         (filter (\<lambda>sentence. sentence_score pq sentence > 0) sentences)
      in take 3 (sort_key (\<lambda>sn. - snippet_score sn) snippets))"

record result =
  result_id :: nat
  result_agent :: string
  score :: jsnum
  snippets :: "snippet list"
  result_metadata :: string
  result_created_at :: int

definition rankResults :: "agent \<Rightarrow> scored list \<Rightarrow> processed_query \<Rightarrow> result list" where
  "rankResults a results pq =
     map (\<lambda>(r, s). \<lparr> result_id = doc_id r,
                      result_agent = doc_agent r,
                      score = s,
                      snippets = extractRelevantSnippets r pq,
                      result_metadata = doc_metadata r,
                      result_created_at = created_at r \<rparr>)
         (filter_and_sort (minScore a) results)"

subsection \<open>The request\<close>

text \<open>
  What \<^verbatim>\<open>_process\<close> returns. The summary text is left out: it is a rendering of
  \<open>results\<close> and cannot fail.
\<close>

record response =
  out_query :: string
  processed_query :: processed_query
  results :: "result list"
  total_results :: nat
  search_type :: string

text \<open>The method \<^verbatim>\<open>_process\<close>.\<close>

definition process_impl :: "agent \<Rightarrow> input \<Rightarrow> response io" where
  "process_impl a i =
     (case agent_db a of
        None \<Rightarrow> throw DatabaseRequired
      | Some _ \<Rightarrow>
          (case query i of
             JString q \<Rightarrow>
               io_bind (processQuery a q)
                 (\<lambda>processedQuery.
                    io_bind (if useVectorSearch a \<and> vectorizer a \<noteq> None
                             then performVectorSearch a processedQuery i
                             else performTextSearch a processedQuery i)
                      (\<lambda>searchResults.
                         (let rankedResults = rankResults a searchResults processedQuery
                          in ok \<lparr> out_query = q,
                                  processed_query = processedQuery,
                                  results = rankedResults,
                                  total_results = length rankedResults,
                                  search_type = (if useVectorSearch a then ''vector''
                                                 else ''text'') \<rparr>)))
           | _ \<Rightarrow> throw TypeError))"

text \<open>
  \<^verbatim>\<open>validateInput\<close>. The check of the base class, \<^verbatim>\<open>super.validateInput(input)\<close>, is the
  parameter \<open>base\<close>: it returns the error it throws, if any.
\<close>

definition validateInput :: "(input \<Rightarrow> error option) \<Rightarrow> input \<Rightarrow> error + unit" where
  "validateInput base i =
     (case base i of
        Some e \<Rightarrow> Inl e
      | None \<Rightarrow>
          if \<not> truthy (query i) then Inl QueryRequired
          else (case query i of JString _ \<Rightarrow> Inr () | _ \<Rightarrow> Inl QueryMustBeString))"

text \<open>
  Modelled from the spec: the method \<^verbatim>\<open>process\<close> of the base class (\<^verbatim>\<open>base_agent.js\<close>, not
  among the sources), through which a request reaches \<^verbatim>\<open>_process\<close>. The spec has an empty or
  missing query "rejected before any I/O, surfaced to caller": the input is validated
  first, and a validation error is the outcome of the request.
\<close>

definition process :: "(input \<Rightarrow> error option) \<Rightarrow> agent \<Rightarrow> input \<Rightarrow> response io" where
  "process base a i =
     (case validateInput base i of
        Inl e \<Rightarrow> throw e
      | Inr _ \<Rightarrow> process_impl a i)"

subsection \<open>Double precision\<close>

text \<open>
  The numbers of the language are IEEE 754 binary64 values. Where the exact value of a
  result matters, the cosine similarity is given again with every operation rounded as the
  language rounds it: a finite number is the real it denotes (the sign of a zero is not
  recorded: the method divides only by the product of two magnitudes), \<open>round64\<close> is
  rounding to the nearest binary64 value, ties to the even significand, with 53 bits
  down to the exponent -1022 and overflow to an infinity, and \<^verbatim>\<open>Math.sqrt\<close> is the correctly
  rounded square root.
\<close>

datatype float64 = Fin64 real | PosInfinity | NegInfinity | NaN64

text \<open>Rounding to the nearest integer, a tie to the even one.\<close>

definition round_half_even :: "real \<Rightarrow> int" where
  "round_half_even x =
     (let n = \<lfloor>x\<rfloor>; r = x - of_int n
      in if r < 1 / 2 then n else if 1 / 2 < r then n + 1 else if even n then n else n + 1)"

text \<open>
  The exponent of the spacing of the binary64 values around \<open>x\<close>: 52 below the exponent
  of \<open>x\<close>, which is at least -1022.
\<close>

definition spacing_exponent :: "real \<Rightarrow> int" where
  "spacing_exponent x = max \<lfloor>log 2 \<bar>x\<bar>\<rfloor> (- 1022) - 52"

definition round64 :: "real \<Rightarrow> float64" where
  "round64 x =
     (if x = 0 then Fin64 0
      else (let q = 2 powr of_int (spacing_exponent x);
                y = of_int (round_half_even (x / q)) * q
            in if 2 ^ 1024 \<le> \<bar>y\<bar> then (if 0 < x then PosInfinity else NegInfinity)
               else Fin64 y))"

text \<open>\<^verbatim>\<open>x * y\<close>, \<^verbatim>\<open>x + y\<close>, \<^verbatim>\<open>Math.sqrt(x)\<close> and \<^verbatim>\<open>x / y\<close>.\<close>

fun sign64 :: "float64 \<Rightarrow> real" where
  "sign64 (Fin64 a) = sgn a"
| "sign64 PosInfinity = 1"
| "sign64 NegInfinity = - 1"
| "sign64 NaN64 = 0"

definition mul64 :: "float64 \<Rightarrow> float64 \<Rightarrow> float64" where
  "mul64 x y =
     (case (x, y) of
        (Fin64 a, Fin64 b) \<Rightarrow> round64 (a * b)
      | _ \<Rightarrow> if x = NaN64 \<or> y = NaN64 \<or> sign64 x * sign64 y = 0 then NaN64
             else if 0 < sign64 x * sign64 y then PosInfinity else NegInfinity)"

fun add64 :: "float64 \<Rightarrow> float64 \<Rightarrow> float64" where
  "add64 (Fin64 a) (Fin64 b) = round64 (a + b)"
| "add64 NaN64 y = NaN64"
| "add64 x NaN64 = NaN64"
| "add64 PosInfinity NegInfinity = NaN64"
| "add64 NegInfinity PosInfinity = NaN64"
| "add64 PosInfinity y = PosInfinity"
| "add64 NegInfinity y = NegInfinity"
| "add64 x PosInfinity = PosInfinity"
| "add64 x NegInfinity = NegInfinity"

fun sqrt64 :: "float64 \<Rightarrow> float64" where
  "sqrt64 (Fin64 a) = (if a < 0 then NaN64 else round64 (sqrt a))"
| "sqrt64 PosInfinity = PosInfinity"
| "sqrt64 NegInfinity = NaN64"
| "sqrt64 NaN64 = NaN64"

fun div64 :: "float64 \<Rightarrow> float64 \<Rightarrow> float64" where
  "div64 (Fin64 a) (Fin64 b) =
     (if b \<noteq> 0 then round64 (a / b)
      else if a = 0 then NaN64 else if 0 < a then PosInfinity else NegInfinity)"
| "div64 NaN64 y = NaN64"
| "div64 x NaN64 = NaN64"
| "div64 (Fin64 a) y = Fin64 0"
| "div64 x (Fin64 b) =
     (if (x = PosInfinity) = (0 \<le> b) then PosInfinity else NegInfinity)"
| "div64 x y = NaN64"

text \<open>\<^verbatim>\<open>calculateCosineSimilarity\<close>, in this arithmetic.\<close>

fun cosine_loop64 ::
  "float64 list \<Rightarrow> float64 list \<Rightarrow> float64 \<times> float64 \<times> float64
     \<Rightarrow> float64 \<times> float64 \<times> float64"
where
  "cosine_loop64 (x # xs) (y # ys) (dotProduct, mag1, mag2) =
     cosine_loop64 xs ys
       (add64 dotProduct (mul64 x y), add64 mag1 (mul64 x x), add64 mag2 (mul64 y y))"
| "cosine_loop64 _ _ acc = acc"

definition calculateCosineSimilarity64 ::
  "float64 list option \<Rightarrow> float64 list option \<Rightarrow> float64"
where
  "calculateCosineSimilarity64 vec1 vec2 =
     (case (vec1, vec2) of
        (Some v1, Some v2) \<Rightarrow>
          if length v1 \<noteq> length v2 then Fin64 0
          else (case cosine_loop64 v1 v2 (Fin64 0, Fin64 0, Fin64 0) of
                  (dotProduct, m1, m2) \<Rightarrow>
                    (let mag1 = sqrt64 m1; mag2 = sqrt64 m2
                     in if mag1 = Fin64 0 \<or> mag2 = Fin64 0 then Fin64 0
                        else div64 dotProduct (mul64 mag1 mag2)))
      | _ \<Rightarrow> Fin64 0)"

subsection \<open>The words of the specification\<close>

text \<open>
  The tokens of a string, as the specification names them: its maximal runs of characters
  that are not whitespace, from left to right.
\<close>

function spec_tokens :: "string \<Rightarrow> string list" where
  "spec_tokens s =
     (case dropWhile is_space s of
        [] \<Rightarrow> []
      | c # cs \<Rightarrow> (c # takeWhile (\<lambda>x. \<not> is_space x) cs)
                   # spec_tokens (dropWhile (\<lambda>x. \<not> is_space x) cs))"
  by pat_completeness auto
termination
proof (relation "measure length", goal_cases)
  case 1
  show ?case by simp
next
  case (2 s c cs)
  have "length (dropWhile (\<lambda>x. \<not> is_space x) cs) \<le> length cs"
    by (rule length_dropWhile_le)
  moreover have "length (dropWhile is_space s) \<le> length s"
    by (rule length_dropWhile_le)
  ultimately show ?case using 2 by simp
qed

declare spec_tokens.simps [simp del]

text \<open>Punctuation is every character that is neither a word character nor whitespace.\<close>

definition strip_punctuation :: "string \<Rightarrow> string" where
  "strip_punctuation s = filter (\<lambda>c. is_word c \<or> is_space c) s"

definition is_lower_alnum :: "char \<Rightarrow> bool" where
  "is_lower_alnum c = (is_lower c \<or> is_digit c)"

text \<open>
  The text score in the words of the specification: 0.5 when the normalized query is a
  substring of the (lowercased) extracted text, 0.3 times the fraction of the keywords
  present in the text, and 0.2 times the fraction of the query entities found among the
  entities of the document, this last term only when the query has entities; at most 1.
\<close>

definition has_text :: "document \<Rightarrow> bool" where
  "has_text d = (case extracted_text d of None \<Rightarrow> False | Some t \<Rightarrow> t \<noteq> [])"

definition lower_text :: "document \<Rightarrow> string" where
  "lower_text d = toLowerCase (case extracted_text d of None \<Rightarrow> [] | Some t \<Rightarrow> t)"

definition fraction :: "('a \<Rightarrow> bool) \<Rightarrow> 'a list \<Rightarrow> real" where
  "fraction p xs = real (length (filter p xs)) / real (length xs)"

definition entity_overlap :: "document \<Rightarrow> entity \<Rightarrow> bool" where
  "entity_overlap d e =
     (case analysis_entities d of
        None \<Rightarrow> False
      | Some es \<Rightarrow> toLowerCase (ent_text e) \<in> set (map (\<lambda>e. toLowerCase (ent_text e)) es))"

definition spec_text_score :: "document \<Rightarrow> processed_query \<Rightarrow> real" where
  "spec_text_score d pq =
     min 1 (0.5 * (if has_text d \<and> js_includes (lower_text d) (normalized pq) then 1 else 0)
            + 0.3 * (if has_text d
                     then fraction (\<lambda>k. js_includes (lower_text d) k) (query_keywords pq) else 0)
            + 0.2 * (if entities pq \<noteq> [] then fraction (entity_overlap d) (entities pq) else 0))"

text \<open>The inner product of two vectors, over their common indices.\<close>

definition dot :: "vector \<Rightarrow> vector \<Rightarrow> real" where
  "dot xs ys = sum_list (map2 (*) xs ys)"

text \<open>
  For the in-memory vector search: the documents its query fetches, the calls to the
  encoder for the fetched documents that have no embedding, and a fetched document with
  the embedding the encoder gives it.
\<close>

definition candidates :: "db \<Rightarrow> input \<Rightarrow> world \<Rightarrow> document list" where
  "candidates h i w =
     cursor_limit 1000 (filter (matches h (add_filters i no_conditions)) (stored w))"

definition backfill_calls :: "document list \<Rightarrow> io_event list" where
  "backfill_calls ds =
     map (\<lambda>d. Encode (case extracted_text d of None \<Rightarrow> [] | Some t \<Rightarrow> t))
         (filter (\<lambda>d. vector_embedding d = None) ds)"

definition embedded :: "(string \<Rightarrow> error + vector) \<Rightarrow> document \<Rightarrow> document" where
  "embedded enc d =
     (case vector_embedding d of
        Some _ \<Rightarrow> d
      | None \<Rightarrow>
          (case enc (case extracted_text d of None \<Rightarrow> [] | Some t \<Rightarrow> t) of
             Inl _ \<Rightarrow> d
           | Inr v \<Rightarrow> d\<lparr>vector_embedding := Some v\<rparr>))"

text \<open>
  For the order and the size of a result set: a list of numbers in non-increasing order,
  and a vector index that returns no more documents than the limit of the stage.
\<close>

definition non_increasing :: "real list \<Rightarrow> bool" where
  "non_increasing xs = sorted_wrt (\<lambda>x y. x \<ge> y) xs"

definition index_respects_limit :: "db \<Rightarrow> bool" where
  "index_respects_limit h =
     (\<forall>stage ds. real (length (vector_index_search h stage ds)) \<le> max 0 (stage_limit stage))"

subsection \<open>Example data\<close>

definition example_options :: options where
  "example_options = \<lparr> opt_db = None, opt_useVectorSearch = None, opt_vectorizer = None,
                        opt_maxResults = None, opt_minScore = None \<rparr>"

definition empty_world :: world where
  "empty_world = \<lparr> stored = [], io_log = [] \<rparr>"

definition doc_a :: document where
  "doc_a = \<lparr> doc_id = 1, doc_agent = ''pdf'',
             extracted_text = Some ''Machine learning enables automation. AI is great!'',
             analysis_entities = None, doc_metadata = ''a.pdf'', created_at = 100,
             vector_embedding = None \<rparr>"

definition doc_b :: document where
  "doc_b = \<lparr> doc_id = 2, doc_agent = ''image'', extracted_text = Some ''Unrelated text'',
             analysis_entities = None, doc_metadata = ''b.png'', created_at = 200,
             vector_embedding = Some [0, 1] \<rparr>"

text \<open>A store that matches a text query by substring, and has no vector index.\<close>

definition example_db :: db where
  "example_db =
     \<lparr> online = True,
       collection_infos = [],
       regex_matches = (\<lambda>rx kws d.
          case extracted_text d of
            None \<Rightarrow> False
          | Some t \<Rightarrow> js_includes (toLowerCase t) rx
                      \<or> list_ex (\<lambda>k. js_includes (toLowerCase t) k) kws),
       vector_index_search = (\<lambda>stage ds. []) \<rparr>"

definition offline_db :: db where
  "offline_db = example_db\<lparr>online := False\<rparr>"

definition example_world :: world where
  "example_world = \<lparr> stored = [doc_a, doc_b], io_log = [] \<rparr>"

definition example_request :: input where
  "example_request = \<lparr> query = JString ''machine learning'', input_filters = None \<rparr>"

text \<open>An agent asked for vector search, without an encoder.\<close>

definition no_encoder_agent :: agent where
  "no_encoder_agent =
     SearchAgent (example_options\<lparr>opt_db := Some example_db, opt_useVectorSearch := Some True\<rparr>)"

definition example_pq :: processed_query where
  "example_pq = \<lparr> original = ''machine learning'', normalized = ''machine learning'',
                    query_keywords = [''machine'', ''learning''], entities = [],
                    query_intent = INFORMATION, query_vector = None \<rparr>"

text \<open>
  An encoder with two-dimensional embeddings, and one that fails on the empty text; a
  document without text and without embedding.
\<close>

definition example_encoder :: "string \<Rightarrow> error + vector" where
  "example_encoder t = Inr (if js_includes (toLowerCase t) ''machine'' then [1, 0] else [0, 1])"

definition flaky_encoder :: "string \<Rightarrow> error + vector" where
  "flaky_encoder t = (if t = [] then Inl (EncodeFailed ''empty text'') else example_encoder t)"

definition doc_c :: document where
  "doc_c = \<lparr> doc_id = 3, doc_agent = ''image'', extracted_text = None,
             analysis_entities = None, doc_metadata = ''c.png'', created_at = 300,
             vector_embedding = None \<rparr>"

definition encoder_agent :: agent where
  "encoder_agent =
     SearchAgent (example_options\<lparr>opt_db := Some example_db, opt_useVectorSearch := Some True,
                                  opt_vectorizer := Some example_encoder\<rparr>)"

definition flaky_agent :: agent where
  "flaky_agent = encoder_agent\<lparr>vectorizer := Some flaky_encoder\<rparr>"

definition vector_pq :: processed_query where
  "vector_pq = example_pq\<lparr>query_vector := Some [1, 0]\<rparr>"

definition flaky_world :: world where
  "flaky_world = \<lparr> stored = [doc_a, doc_b, doc_c], io_log = [] \<rparr>"

text \<open>
  An agent configured with a negative minimum score, and a store with a document whose
  embedding points away from the query.
\<close>

definition doc_d :: document where
  "doc_d = \<lparr> doc_id = 4, doc_agent = ''pdf'', extracted_text = Some ''Opposite'',
             analysis_entities = None, doc_metadata = ''d.pdf'', created_at = 400,
             vector_embedding = Some [- 1, 0] \<rparr>"

definition negative_agent :: agent where
  "negative_agent =
     SearchAgent (example_options\<lparr>opt_db := Some example_db, opt_useVectorSearch := Some True,
                                  opt_vectorizer := Some example_encoder,
                                  opt_minScore := Some (Num (- 1))\<rparr>)"

definition negative_world :: world where
  "negative_world = \<lparr> stored = [doc_d, doc_a], io_log = [] \<rparr>"

section \<open>Properties\<close>

subsection \<open>Auxiliary facts: strings\<close>

lemmas char_class_defs =
  toLowerCase_def lower_char_def upper_chars_def lower_chars_def
  is_word_def is_lower_def is_upper_def is_digit_def digit_chars_def is_space_def space_chars_def

lemma split_runs_nonempty: "split_runs sep s \<noteq> []"
  by (induction sep s rule: split_runs.induct) (auto split: list.splits)

lemma spec_tokens_Nil: "spec_tokens [] = []"
  by (simp add: spec_tokens.simps)

lemma spec_tokens_space:
  "is_space c \<Longrightarrow> spec_tokens (c # cs) = spec_tokens (dropWhile is_space cs)"
  by (subst spec_tokens.simps, subst (2) spec_tokens.simps) simp

lemma spec_tokens_nonspace:
  "\<not> is_space c \<Longrightarrow> spec_tokens (c # cs) =
     (c # takeWhile (\<lambda>x. \<not> is_space x) cs) # spec_tokens (dropWhile (\<lambda>x. \<not> is_space x) cs)"
  by (subst spec_tokens.simps) simp

lemma hd_split_runs: "hd (split_runs sep s) = takeWhile (\<lambda>x. \<not> sep x) s"
  by (induction sep s rule: split_runs.induct) (auto simp: split_runs_nonempty split: list.splits)

lemma tokens_of_split:
  "filter (\<lambda>w. w \<noteq> []) (split_runs is_space s) = spec_tokens s"
proof (induction s rule: length_induct)
  case (1 s)
  show ?case
  proof (cases s)
    case Nil
    then show ?thesis by (simp add: spec_tokens_Nil)
  next
    case (Cons c cs)
    show ?thesis
    proof (cases "is_space c")
      case True
      have "length (dropWhile is_space cs) < length s"
        using Cons length_dropWhile_le [of is_space cs] by simp
      with 1 have "filter (\<lambda>w. w \<noteq> []) (split_runs is_space (dropWhile is_space cs))
                    = spec_tokens (dropWhile is_space cs)" by blast
      with True Cons show ?thesis by (simp add: spec_tokens_space)
    next
      case False
      obtain w ws where S: "split_runs is_space cs = w # ws"
        using split_runs_nonempty [of is_space cs] by (cases "split_runs is_space cs") auto
      have w: "w = takeWhile (\<lambda>x. \<not> is_space x) cs"
        using hd_split_runs [of is_space cs] S by simp
      have IH: "filter (\<lambda>w. w \<noteq> []) (split_runs is_space cs) = spec_tokens cs"
        using 1 Cons by simp
      have rest: "filter (\<lambda>w. w \<noteq> []) ws = spec_tokens (dropWhile (\<lambda>x. \<not> is_space x) cs)"
      proof (cases cs)
        case Nil
        with S show ?thesis by (simp add: spec_tokens_Nil)
      next
        case (Cons d ds)
        show ?thesis
        proof (cases "is_space d")
          case True
          with Cons S have "w = []" by simp
          with IH S have "filter (\<lambda>w. w \<noteq> []) ws = spec_tokens cs" by simp
          with True Cons show ?thesis by simp
        next
          case False
          with Cons w have "w \<noteq> []" by simp
          with IH S have "w # filter (\<lambda>w. w \<noteq> []) ws = spec_tokens cs" by simp
          with False Cons show ?thesis by (simp add: spec_tokens_nonspace)
        qed
      qed
      from False Cons S w rest show ?thesis by (simp add: spec_tokens_nonspace)
    qed
  qed
qed

lemma filter_longer_nonempty:
  "filter (\<lambda>w. length w > 2) (filter (\<lambda>w. w \<noteq> []) xs) = filter (\<lambda>w. length w > 2) xs"
  by (induction xs) auto

lemma extract_keywords_spec:
  "extract_keywords q =
     filter (\<lambda>w. length w > 2) (spec_tokens (strip_punctuation (toLowerCase q)))"
  unfolding extract_keywords_def strip_punctuation_def
  by (simp only: tokens_of_split [symmetric] filter_longer_nonempty)

lemma not_upper_lower_char: "\<not> is_upper (lower_char c)"
  by (auto simp: lower_char_def is_upper_def upper_chars_def lower_chars_def split: if_splits)

lemma split_runs_chars:
  "w \<in> set (split_runs sep s) \<Longrightarrow> c \<in> set w \<Longrightarrow> c \<in> set s \<and> \<not> sep c"
proof (induction sep s arbitrary: w rule: split_runs.induct)
  case (1 sep)
  then show ?case by simp
next
  case (2 sep x xs)
  show ?case
  proof (cases "sep x")
    case True
    with "2.prems" have "w \<in> set (split_runs sep (dropWhile sep xs))"
      by auto
    from "2.IH"(1) [OF True this "2.prems"(2)]
    show ?thesis by (auto dest: set_dropWhileD)
  next
    case False
    obtain w' ws where S: "split_runs sep xs = w' # ws"
      using split_runs_nonempty [of sep xs] by (cases "split_runs sep xs") auto
    from "2.prems"(1) False S have "w = x # w' \<or> w \<in> set ws" by simp
    then show ?thesis
    proof
      assume "w = x # w'"
      with "2.prems"(2) have "c = x \<or> c \<in> set w'" by simp
      then show ?thesis
      proof
        assume "c = x" with False show ?thesis by simp
      next
        assume "c \<in> set w'"
        with "2.IH"(2) [OF False, of w'] S show ?thesis by simp
      qed
    next
      assume "w \<in> set ws"
      with "2.IH"(2) [OF False, of w] S "2.prems"(2) show ?thesis by simp
    qed
  qed
qed

lemma extract_keywords_chars:
  assumes "w \<in> set (extract_keywords q)" "c \<in> set w"
  shows "is_lower c \<or> is_digit c \<or> c = CHR ''_''"
proof -
  from assms
  have "w \<in> set (split_runs is_space (filter (\<lambda>c. is_word c \<or> is_space c) (toLowerCase q)))"
    by (simp add: extract_keywords_def)
  from split_runs_chars [OF this assms(2)]
  have "c \<in> set (toLowerCase q)" "is_word c" by auto
  then show ?thesis
    using not_upper_lower_char by (auto simp: is_word_def toLowerCase_def)
qed

lemma processQuery_keywords:
  "fst (processQuery a q w) = Inr pq \<Longrightarrow> query_keywords pq = extract_keywords q"
  by (auto simp: processQuery_def io_bind_def ok_def encode_def
           split: option.splits sum.splits prod.splits)

lemma processQuery_no_encoder:
  "vectorizer a = None \<Longrightarrow>
   processQuery a q w =
     (Inr \<lparr> original = q, normalized = toLowerCase q, query_keywords = extract_keywords q,
            entities = extract_entities q, query_intent = detect_intent q,
            query_vector = None \<rparr>, w)"
  by (simp add: processQuery_def io_bind_def ok_def)

subsection \<open>Keywords\<close>

text \<open>
  Claim C8, as the code has it. The keywords of a processed query are, in order, the tokens
  longer than two characters of the lowercased query with its punctuation removed, a token
  being a maximal run of characters that are not whitespace. Each keyword is made of
  lowercase letters, digits and underscores: the underscore is a word character and is
  not removed.
\<close>

theorem keywords_are_long_word_tokens:
  assumes "fst (processQuery a q w) = Inr pq"
  shows "query_keywords pq =
           filter (\<lambda>w. length w > 2) (spec_tokens (strip_punctuation (toLowerCase q))) \<and>
         (\<forall>k \<in> set (query_keywords pq). length k > 2 \<and>
            (\<forall>c \<in> set k. is_lower c \<or> is_digit c \<or> c = CHR ''_''))"
proof -
  have k: "query_keywords pq = extract_keywords q"
    using assms by (rule processQuery_keywords)
  have len: "\<forall>k \<in> set (extract_keywords q). length k > 2"
    by (simp add: extract_keywords_def)
  have chars: "\<forall>k \<in> set (extract_keywords q). \<forall>c \<in> set k.
                 is_lower c \<or> is_digit c \<or> c = CHR ''_''"
    using extract_keywords_chars by blast
  show ?thesis
    unfolding k using extract_keywords_spec [of q] len chars by blast
qed

theorem keywords_are_long_word_tokens_witness:
  "fst (processQuery (SearchAgent example_options) ''Find my_var in AI-tools, a b!'' empty_world)
     = Inr (projr (fst (processQuery (SearchAgent example_options) ''Find my_var in AI-tools, a b!''
                         empty_world))) \<and>
   query_keywords (projr (fst (processQuery (SearchAgent example_options)
                                 ''Find my_var in AI-tools, a b!'' empty_world)))
     = [''find'', ''my_var'', ''aitools''] \<and>
   [''find'', ''my_var'', ''aitools'']
     = filter (\<lambda>w. length w > 2)
         (spec_tokens (strip_punctuation (toLowerCase ''Find my_var in AI-tools, a b!'')))"
proof -
  have v: "vectorizer (SearchAgent example_options) = None"
    by (simp add: SearchAgent_def example_options_def)
  have h: "fst (processQuery (SearchAgent example_options) ''Find my_var in AI-tools, a b!'' empty_world)
     = Inr (projr (fst (processQuery (SearchAgent example_options) ''Find my_var in AI-tools, a b!''
                         empty_world)))"
    by (simp add: processQuery_no_encoder [OF v])
  have k: "query_keywords (projr (fst (processQuery (SearchAgent example_options)
                                 ''Find my_var in AI-tools, a b!'' empty_world)))
     = [''find'', ''my_var'', ''aitools'']"
    by (simp add: processQuery_no_encoder [OF v] extract_keywords_def char_class_defs)
  from keywords_are_long_word_tokens [OF h] h k show ?thesis by simp
qed

text \<open>
  Claim C8 as stated has every keyword alphanumeric. The query \<^verbatim>\<open>my_var\<close> has the keyword
  \<^verbatim>\<open>my_var\<close>, with its underscore.
\<close>

theorem keywords_alphanumeric_counterexample:
  "\<not> list_all (list_all is_lower_alnum)
       (query_keywords (projr (fst (processQuery (SearchAgent example_options) ''my_var''
                                      empty_world))))"
proof -
  have v: "vectorizer (SearchAgent example_options) = None"
    by (simp add: SearchAgent_def example_options_def)
  show ?thesis
    by (simp add: processQuery_no_encoder [OF v] extract_keywords_def is_lower_alnum_def
          char_class_defs)
qed

subsection \<open>Validation and construction\<close>

text \<open>
  Claim C9. A request whose query is missing (\<^verbatim>\<open>undefined\<close> or \<^verbatim>\<open>null\<close>) or the empty
  string is rejected by the validation, with the error \<^verbatim>\<open>Search query is required\<close> when
  the base class has accepted the input; the request ends with that error and the world is
  as before: no call to the store or the encoder has been made.
\<close>

theorem invalid_query_rejected_before_io:
  assumes "query i = JUndefined \<or> query i = JNull \<or> query i = JString []"
  shows "\<exists>e. validateInput base i = Inl e \<and> (base i = None \<longrightarrow> e = QueryRequired) \<and>
             process base a i w = (Inl e, w)"
  using assms by (auto simp: validateInput_def process_def throw_def split: option.splits)

theorem invalid_query_rejected_before_io_witness:
  "process (\<lambda>_. None) (SearchAgent example_options)
     \<lparr> query = JString [], input_filters = None \<rparr> empty_world
     = (Inl QueryRequired, empty_world)"
  using invalid_query_rejected_before_io
          [of "\<lparr> query = JString [], input_filters = None \<rparr>" "\<lambda>_. None"
              "SearchAgent example_options" empty_world]
  by simp

text \<open>
  Claim C10. A minimum score of 0 or a result cap of 0 given to the constructor is replaced
  by the default (0.5 and 10), so neither field of an agent is ever 0; every other number
  given is kept as it is.
\<close>

theorem constructor_falsy_values_fall_back:
  "minScore (SearchAgent (opts\<lparr>opt_minScore := Some (Num 0)\<rparr>)) = 0.5 \<and>
   maxResults (SearchAgent (opts\<lparr>opt_maxResults := Some (Num 0)\<rparr>)) = 10 \<and>
   minScore (SearchAgent opts) \<noteq> 0 \<and> maxResults (SearchAgent opts) \<noteq> 0 \<and>
   (r \<noteq> 0 \<longrightarrow> minScore (SearchAgent (opts\<lparr>opt_minScore := Some (Num r)\<rparr>)) = r) \<and>
   (r \<noteq> 0 \<longrightarrow> maxResults (SearchAgent (opts\<lparr>opt_maxResults := Some (Num r)\<rparr>)) = r)"
proof -
  have nz: "or_default v d \<noteq> 0" if "d \<noteq> 0" for v d
    using that by (cases "(v, d)" rule: or_default.cases) auto
  show ?thesis
    using nz [of "0.5" "opt_minScore opts"] nz [of 10 "opt_maxResults opts"]
    by (simp add: SearchAgent_def)
qed

theorem constructor_falsy_values_fall_back_witness:
  "(0.7::real) \<noteq> 0 \<and>
   minScore (SearchAgent (example_options\<lparr>opt_minScore := Some (Num 0.7)\<rparr>)) = 0.7 \<and>
   maxResults (SearchAgent (example_options\<lparr>opt_maxResults := Some (Num 0.7)\<rparr>)) = 0.7 \<and>
   minScore (SearchAgent (example_options\<lparr>opt_minScore := Some (Num 0)\<rparr>)) = 0.5"
  using constructor_falsy_values_fall_back [of example_options "0.7"] by simp

subsection \<open>Store failures\<close>

lemma process_impl_no_db:
  "agent_db a = None \<Longrightarrow> process_impl a i w = (Inl DatabaseRequired, w)"
  by (simp add: process_impl_def throw_def)

lemma performTextSearch_online:
  "agent_db a = Some h \<Longrightarrow> online h \<Longrightarrow>
   \<exists>rs. performTextSearch a pq i w =
     (Inr rs, record_event (Find (add_filters i \<lparr> q_text = Some (normalized pq, query_keywords pq),
                                   q_agent = None, q_created_at = None \<rparr>) (maxResults a)) w)"
  by (simp add: performTextSearch_def io_bind_def db_find_def ok_def)

lemma performTextSearch_offline:
  "agent_db a = Some h \<Longrightarrow> \<not> online h \<Longrightarrow> isl (fst (performTextSearch a pq i w))"
  by (simp add: performTextSearch_def io_bind_def db_find_def)

lemma performVectorSearch_offline:
  "agent_db a = Some h \<Longrightarrow> \<not> online h \<Longrightarrow> isl (fst (performVectorSearch a pq i w))"
  by (simp add: performVectorSearch_def io_bind_def db_listCollections_def throw_def
           split: option.splits)

lemma io_bind_isl:
  "(\<And>x w1. isl (fst (f x w1))) \<Longrightarrow> isl (fst (io_bind m f w))"
  by (auto simp: io_bind_def split: prod.splits sum.splits)

lemma io_bind_isl_left:
  "isl (fst (m w)) \<Longrightarrow> isl (fst (io_bind m f w))"
  by (auto simp: io_bind_def split: prod.splits sum.splits)

lemma process_impl_offline:
  assumes "agent_db a = Some h" "\<not> online h"
  shows "isl (fst (process_impl a i w))"
proof (cases "query i")
  case (JString q)
  have "isl (fst ((if useVectorSearch a \<and> vectorizer a \<noteq> None
                   then performVectorSearch a pq i
                   else performTextSearch a pq i) w1))" for pq w1
    using performTextSearch_offline [OF assms] performVectorSearch_offline [OF assms] by simp
  then show ?thesis
    unfolding process_impl_def
    by (simp only: assms(1) JString option.case jsvalue.case io_bind_isl io_bind_isl_left)
qed (simp_all add: process_impl_def throw_def assms(1))

text \<open>
  Claim C3, as the code has it. Without a store handle \<^verbatim>\<open>_process\<close> fails with
  \<^verbatim>\<open>Database connection required for search\<close> and does nothing else; with a handle whose
  calls are rejected the request ends with an error as well. Neither gives a result set.
\<close>

theorem store_failure_is_an_error:
  "(agent_db a = None \<longrightarrow> process_impl a i w = (Inl DatabaseRequired, w)) \<and>
   (agent_db a = Some h \<and> \<not> online h \<longrightarrow> isl (fst (process_impl a i w)))"
  using process_impl_no_db [of a i w] process_impl_offline [of a h i w] by blast


theorem store_failure_is_an_error_witness:
  "agent_db (SearchAgent example_options) = None \<and>
   process_impl (SearchAgent example_options) example_request example_world
     = (Inl DatabaseRequired, example_world) \<and>
   agent_db (SearchAgent (example_options\<lparr>opt_db := Some offline_db\<rparr>)) = Some offline_db \<and>
   \<not> online offline_db \<and>
   isl (fst (process_impl (SearchAgent (example_options\<lparr>opt_db := Some offline_db\<rparr>))
               example_request example_world))"
  using store_failure_is_an_error
          [of "SearchAgent example_options" example_request example_world offline_db]
        store_failure_is_an_error
          [of "SearchAgent (example_options\<lparr>opt_db := Some offline_db\<rparr>)"
              example_request example_world offline_db]
  by (simp add: SearchAgent_def example_options_def offline_db_def)

text \<open>
  Claim C3 as stated has an empty result set in both cases. The request for
  \<^verbatim>\<open>machine learning\<close> fails with the error of the missing handle, and with the rejection
  of the store that is not reachable.
\<close>

theorem unavailable_store_counterexample:
  "fst (process_impl (SearchAgent example_options) example_request example_world)
     = Inl DatabaseRequired \<and>
   fst (process_impl (SearchAgent (example_options\<lparr>opt_db := Some offline_db\<rparr>))
          example_request example_world)
     = Inl StoreUnreachable"
  by (simp add: process_impl_def SearchAgent_def example_options_def offline_db_def
        example_request_def throw_def processQuery_def performTextSearch_def db_find_def
        io_bind_def ok_def)

subsection \<open>Vector search without an encoder\<close>

lemma performVectorSearch_no_encoder:
  "vectorizer a = None \<Longrightarrow> performVectorSearch a pq i w = (Inl VectorizerRequired, w)"
  by (simp add: performVectorSearch_def throw_def)

lemma performTextSearch_cases:
  "performTextSearch a pq i w = (r, w1) \<Longrightarrow>
   r = Inl TypeError \<or> r = Inl StoreUnreachable \<or> (\<exists>rs. r = Inr rs)"
  by (auto simp: performTextSearch_def throw_def io_bind_def db_find_def ok_def
           split: option.splits if_splits)

text \<open>
  Claim C1, as the code has it. \<^verbatim>\<open>performVectorSearch\<close> called without an encoder throws
  \<^verbatim>\<open>Vectorizer required for vector search\<close>, but \<^verbatim>\<open>_process\<close> does not call it then: with
  no encoder the request never ends with that error, and its results and its calls to the
  store are those of the same agent with vector search switched off, that is, of the
  text search.
\<close>

theorem missing_encoder_runs_text_search:
  assumes "vectorizer a = None"
  shows "performVectorSearch a pq i w = (Inl VectorizerRequired, w) \<and>
         fst (process_impl a i w) \<noteq> Inl VectorizerRequired \<and>
         map_sum id results (fst (process_impl a i w))
           = map_sum id results (fst (process_impl (a\<lparr>useVectorSearch := False\<rparr>) i w)) \<and>
         snd (process_impl a i w) = snd (process_impl (a\<lparr>useVectorSearch := False\<rparr>) i w)"
proof -
  let ?b = "a\<lparr>useVectorSearch := False\<rparr>"
  have vb: "vectorizer ?b = None" using assms by simp
  have same_search: "performTextSearch ?b pq' i w' = performTextSearch a pq' i w'" for pq' w'
    by (simp add: performTextSearch_def split: option.splits)
  have rank: "rankResults ?b rs pq' = rankResults a rs pq'" for rs pq'
    by (simp add: rankResults_def)
  show ?thesis
  proof (cases "agent_db a")
    case None
    then show ?thesis
      using assms by (simp add: performVectorSearch_no_encoder process_impl_def throw_def)
  next
    case (Some h)
    show ?thesis
    proof (cases "query i")
      case (JString q)
      obtain r w1 where r: "performTextSearch a
          \<lparr> original = q, normalized = toLowerCase q, query_keywords = extract_keywords q,
            entities = extract_entities q, query_intent = detect_intent q,
            query_vector = None \<rparr> i w = (r, w1)"
        by (cases "performTextSearch a
          \<lparr> original = q, normalized = toLowerCase q, query_keywords = extract_keywords q,
            entities = extract_entities q, query_intent = detect_intent q,
            query_vector = None \<rparr> i w") auto
      from performTextSearch_cases [OF r]
      show ?thesis
        using assms Some JString r
        by (auto simp: performVectorSearch_no_encoder process_impl_def
              processQuery_no_encoder [OF assms] processQuery_no_encoder [OF vb]
              same_search rank io_bind_def ok_def Let_def)
    qed (use assms Some in \<open>simp_all add: performVectorSearch_no_encoder process_impl_def throw_def\<close>)
  qed
qed


theorem missing_encoder_runs_text_search_witness:
  "vectorizer no_encoder_agent = None \<and>
   performVectorSearch no_encoder_agent example_pq example_request example_world
     = (Inl VectorizerRequired, example_world) \<and>
   fst (process_impl no_encoder_agent example_request example_world) \<noteq> Inl VectorizerRequired"
proof -
  have v: "vectorizer no_encoder_agent = None"
    by (simp add: no_encoder_agent_def SearchAgent_def example_options_def)
  from missing_encoder_runs_text_search [OF v, of example_pq example_request example_world] v
  show ?thesis by simp
qed

lemma kw_machine_learning: "extract_keywords ''machine learning'' = [''machine'', ''learning'']"
  by (simp add: extract_keywords_def char_class_defs)

lemma lower_machine_learning: "toLowerCase ''machine learning'' = ''machine learning''"
  by (simp add: char_class_defs)

lemma lower_doc_a:
  "toLowerCase ''Machine learning enables automation. AI is great!''
     = ''machine learning enables automation. ai is great!''"
  by (simp add: char_class_defs)

lemma lower_doc_b: "toLowerCase ''Unrelated text'' = ''unrelated text''"
  by (simp add: char_class_defs)

lemma process_impl_text:
  assumes "agent_db a = Some h" "query i = JString q"
    and "\<not> (useVectorSearch a \<and> vectorizer a \<noteq> None)"
    and "processQuery a q w = (Inr pq, w1)"
    and "performTextSearch a pq i w1 = (Inr rs, w2)"
  shows "process_impl a i w =
           (Inr \<lparr> out_query = q, processed_query = pq, results = rankResults a rs pq,
                  total_results = length (rankResults a rs pq),
                  search_type = (if useVectorSearch a then ''vector'' else ''text'') \<rparr>, w2)"
  using assms(3)
  by (simp add: process_impl_def assms(1,2,4,5) io_bind_def ok_def Let_def)

lemma no_encoder_agent_fields:
  "agent_db no_encoder_agent = Some example_db" "useVectorSearch no_encoder_agent"
  "vectorizer no_encoder_agent = None" "maxResults no_encoder_agent = 10"
  "minScore no_encoder_agent = 0.5"
  by (simp_all add: no_encoder_agent_def SearchAgent_def example_options_def)

lemma example_text_search:
  assumes "agent_db a = Some example_db" "maxResults a = 10" "normalized pq = ''machine learning''"
    "query_keywords pq = [''machine'', ''learning'']"
  shows "performTextSearch a pq example_request example_world
           = (Inr [(doc_a, Num 0.8)],
              example_world\<lparr>io_log := [Find \<lparr> q_text = Some (''machine learning'',
                                                   [''machine'', ''learning'']),
                                               q_agent = None, q_created_at = None \<rparr> 10]\<rparr>)"
proof -
  have m: "matches example_db \<lparr> q_text = Some (''machine learning'', [''machine'', ''learning'']),
                      q_agent = None, q_created_at = None \<rparr> doc_a"
     "\<not> matches example_db \<lparr> q_text = Some (''machine learning'', [''machine'', ''learning'']),
                      q_agent = None, q_created_at = None \<rparr> doc_b"
    by (simp_all add: matches_def passes_filters_def example_db_def doc_a_def doc_b_def
          lower_doc_a lower_doc_b)
  have sc: "calculateTextScore doc_a pq = Num 0.8"
    by (simp add: calculateTextScore_def doc_a_def lower_doc_a assms(3,4) matched_fraction_def)
  have on: "online example_db" by (simp add: example_db_def)
  show ?thesis
    by (simp add: performTextSearch_def assms db_find_def io_bind_def ok_def add_filters_def
          example_request_def example_world_def m sc cursor_limit_def record_event_def on)
qed

text \<open>
  Claim C1 as stated has an error here. The agent asked for vector search without an
  encoder answers the request for \<^verbatim>\<open>machine learning\<close> with the first document, scored 0.8
  by the text search, after one text query to the store.
\<close>

theorem missing_encoder_counterexample:
  "useVectorSearch no_encoder_agent \<and> vectorizer no_encoder_agent = None \<and>
   \<not> isl (fst (process_impl no_encoder_agent example_request example_world)) \<and>
   map (\<lambda>r. (result_id r, score r))
       (results (projr (fst (process_impl no_encoder_agent example_request example_world))))
     = [(1, Num 0.8)] \<and>
   io_log (snd (process_impl no_encoder_agent example_request example_world))
     = [Find \<lparr> q_text = Some (''machine learning'', [''machine'', ''learning'']),
               q_agent = None, q_created_at = None \<rparr> 10]"
proof -
  let ?pq = "\<lparr> original = ''machine learning'', normalized = ''machine learning'',
               query_keywords = [''machine'', ''learning''],
               entities = extract_entities ''machine learning'',
               query_intent = detect_intent ''machine learning'', query_vector = None \<rparr>"
  have pq: "processQuery no_encoder_agent ''machine learning'' example_world = (Inr ?pq, example_world)"
    by (simp add: processQuery_no_encoder no_encoder_agent_fields kw_machine_learning
          lower_machine_learning)
  have ts: "performTextSearch no_encoder_agent ?pq example_request example_world
           = (Inr [(doc_a, Num 0.8)],
              example_world\<lparr>io_log := [Find \<lparr> q_text = Some (''machine learning'',
                                                   [''machine'', ''learning'']),
                                               q_agent = None, q_created_at = None \<rparr> 10]\<rparr>)"
    by (rule example_text_search) (simp_all add: no_encoder_agent_fields)
  have q: "query example_request = JString ''machine learning''"
    by (simp add: example_request_def)
  have rk: "map (\<lambda>r. (result_id r, score r)) (rankResults no_encoder_agent [(doc_a, Num 0.8)] ?pq)
              = [(1, Num 0.8)]"
    by (simp add: rankResults_def filter_and_sort_def no_encoder_agent_fields doc_a_def)
  have "\<not> (useVectorSearch no_encoder_agent \<and> vectorizer no_encoder_agent \<noteq> None)"
    by (simp add: no_encoder_agent_fields)
  from process_impl_text [OF no_encoder_agent_fields(1) q this pq ts] rk
  show ?thesis
    by (simp add: no_encoder_agent_fields)
qed

subsection \<open>Cosine similarity\<close>

text \<open>Over the real numbers the loop computes three inner products.\<close>

lemma dot_simps [simp]:
  "dot [] ys = 0" "dot xs [] = 0" "dot (x # xs) (y # ys) = x * y + dot xs ys"
  by (simp_all add: dot_def)

lemma cosine_loop_sums:
  "length xs = length ys \<Longrightarrow>
   cosine_loop xs ys (d, m1, m2) = (d + dot xs ys, m1 + dot xs xs, m2 + dot ys ys)"
  by (induction xs ys arbitrary: d m1 m2 rule: list_induct2) (simp_all add: algebra_simps)

lemma cosine_eq:
  "calculateCosineSimilarity (Some xs) (Some ys) =
     (if length xs \<noteq> length ys \<or> dot xs xs = 0 \<or> dot ys ys = 0 then 0
      else dot xs ys / (sqrt (dot xs xs) * sqrt (dot ys ys)))"
  by (simp add: calculateCosineSimilarity_def cosine_loop_sums Let_def)

lemma cosine_None [simp]:
  "calculateCosineSimilarity None v = 0" "calculateCosineSimilarity v None = 0"
  by (simp_all add: calculateCosineSimilarity_def split: option.splits)

text \<open>Rounding: how a value of \<open>round64\<close> is established.\<close>

lemma round_half_even_eqI:
  assumes "\<bar>x - of_int n\<bar> < 1 / 2"
  shows "round_half_even x = n"
proof (cases "of_int n \<le> x")
  case True
  with assms have "\<lfloor>x\<rfloor> = n" by (intro floor_unique) simp_all
  with assms True show ?thesis by (simp add: round_half_even_def Let_def)
next
  case False
  with assms have f: "\<lfloor>x\<rfloor> = n - 1" by (intro floor_unique) simp_all
  from assms False have "1 / 2 < x - of_int (n - 1)" by simp
  with f show ?thesis by (simp add: round_half_even_def Let_def)
qed

lemma floor_log2_eqI:
  assumes "2 powr of_int k \<le> x" "x < 2 powr of_int (k + 1)"
  shows "\<lfloor>log 2 x\<rfloor> = k"
proof -
  have pos: "0 < x" using assms(1) by (rule less_le_trans [rotated]) simp
  have "of_int k \<le> log 2 x"
    using assms(1) pos by (simp add: le_log_iff)
  moreover have "log 2 x < of_int k + 1"
    using assms(2) pos by (simp add: log_less_iff)
  ultimately show ?thesis by (intro floor_unique) simp_all
qed

lemma round64_eqI:
  assumes "2 powr of_int k \<le> \<bar>x\<bar>" "\<bar>x\<bar> < 2 powr of_int (k + 1)" "- 1022 \<le> k"
    and "q = 2 powr of_int (k - 52)"
    and "\<bar>x / q - of_int n\<bar> < 1 / 2"
    and "\<bar>of_int n * q\<bar> < 2 ^ 1024"
  shows "round64 x = Fin64 (of_int n * q)"
proof -
  have "0 < \<bar>x\<bar>" using assms(1) by (rule less_le_trans [rotated]) simp
  then have nz: "x \<noteq> 0" by simp
  have "spacing_exponent x = k - 52"
    using floor_log2_eqI [OF assms(1,2)] assms(3) by (simp add: spacing_exponent_def)
  then have q: "2 powr of_int (spacing_exponent x) = q" using assms(4) by simp
  have "round_half_even (x / q) = n" using assms(5) by (rule round_half_even_eqI)
  with nz q assms(6) show ?thesis
    by (simp add: round64_def Let_def)
qed

lemma round64_0 [simp]: "round64 0 = Fin64 0"
  by (simp add: round64_def)






text \<open>The similarity of \<^verbatim>\<open>[1, 1]\<close> and of \<^verbatim>\<open>[1, 1, 1]\<close> with themselves, step by step.\<close>

lemma spacing_values:
  "(2::real) powr (- 52) = 1 / 2 ^ 52"
  "(2::real) powr (- 51) = 1 / 2 ^ 51"
  "(2::real) powr (- 53) = 1 / 2 ^ 53"
  "(2::real) powr (- 1) = 1 / 2"
  "(2::real) powr 0 = 1"
  "(2::real) powr 1 = 2"
  "(2::real) powr 2 = 4"
  by (simp_all add: powr_minus powr_numeral inverse_eq_divide)

lemma round64_1: "round64 1 = Fin64 1"
proof -
  have "round64 1 = Fin64 (of_int (2 ^ 52) * (1 / 2 ^ 52))"
  proof (rule round64_eqI [where k = 0])
    show "(2::real) powr of_int 0 \<le> \<bar>1\<bar>" by simp
    show "\<bar>1::real\<bar> < 2 powr of_int (0 + 1)" by simp
    show "- 1022 \<le> (0::int)" by simp
    show "(1 / 2 ^ 52 :: real) = 2 powr of_int (0 - 52)" by (simp add: spacing_values)
    show "\<bar>(1::real) / (1 / 2 ^ 52) - of_int (2 ^ 52)\<bar> < 1 / 2" by simp
    show "\<bar>of_int (2 ^ 52) * (1 / 2 ^ 52 :: real)\<bar> < 2 ^ 1024" by simp
  qed
  then show ?thesis by simp
qed

lemma round64_2: "round64 2 = Fin64 2"
proof -
  have "round64 2 = Fin64 (of_int (2 ^ 52) * (1 / 2 ^ 51))"
  proof (rule round64_eqI [where k = 1])
    show "(2::real) powr of_int 1 \<le> \<bar>2\<bar>" by simp
    show "\<bar>2::real\<bar> < 2 powr of_int (1 + 1)" by (simp add: spacing_values)
    show "- 1022 \<le> (1::int)" by simp
    show "(1 / 2 ^ 51 :: real) = 2 powr of_int (1 - 52)" by (simp add: spacing_values)
    show "\<bar>(2::real) / (1 / 2 ^ 51) - of_int (2 ^ 52)\<bar> < 1 / 2" by simp
    show "\<bar>of_int (2 ^ 52) * (1 / 2 ^ 51 :: real)\<bar> < 2 ^ 1024" by simp
  qed
  then show ?thesis by simp
qed






lemma cosine64_eval:
  assumes "length v1 = length v2"
    and "cosine_loop64 v1 v2 (Fin64 0, Fin64 0, Fin64 0) = (d, m1, m2)"
    and "sqrt64 m1 = g1" "sqrt64 m2 = g2" "g1 \<noteq> Fin64 0" "g2 \<noteq> Fin64 0"
  shows "calculateCosineSimilarity64 (Some v1) (Some v2) = div64 d (mul64 g1 g2)"
  using assms by (simp add: calculateCosineSimilarity64_def Let_def)




lemma round64_3: "round64 3 = Fin64 3"
proof -
  have "round64 3 = Fin64 (of_int (3 * 2 ^ 51) * (1 / 2 ^ 51))"
  proof (rule round64_eqI [where k = 1])
    show "(2::real) powr of_int 1 \<le> \<bar>3\<bar>" by simp
    show "\<bar>3::real\<bar> < 2 powr of_int (1 + 1)" by (simp add: spacing_values)
    show "- 1022 \<le> (1::int)" by simp
    show "(1 / 2 ^ 51 :: real) = 2 powr of_int (1 - 52)" by (simp add: spacing_values)
    show "\<bar>(3::real) / (1 / 2 ^ 51) - of_int (3 * 2 ^ 51)\<bar> < 1 / 2" by simp
    show "\<bar>of_int (3 * 2 ^ 51) * (1 / 2 ^ 51 :: real)\<bar> < 2 ^ 1024" by simp
  qed
  then show ?thesis by simp
qed

lemma sqrt_3_bounds:
  "15600926743107923 / 2 < sqrt 3 * 2 ^ 52" "sqrt 3 * 2 ^ 52 < 15600926743107925 / 2"
proof -
  have "sqrt (2 ^ 104) = (2 ^ 52 :: real)"
    by (rule real_sqrt_unique) simp_all
  then have e: "sqrt 3 * 2 ^ 52 = sqrt (3 * 2 ^ 104)"
    by (simp only: real_sqrt_mult)
  show "15600926743107923 / 2 < sqrt 3 * 2 ^ 52"
    unfolding e by (rule real_less_rsqrt) (simp add: power2_eq_square)
  show "sqrt 3 * 2 ^ 52 < 15600926743107925 / 2"
    unfolding e by (rule real_less_lsqrt) (simp_all add: power2_eq_square)
qed

lemma round64_sqrt_3: "round64 (sqrt 3) = Fin64 (7800463371553962 / 2 ^ 52)"
proof -
  have "round64 (sqrt 3) = Fin64 (of_int 7800463371553962 * (1 / 2 ^ 52))"
  proof (rule round64_eqI [where k = 0])
    have "1 \<le> sqrt 3" by simp
    then show "(2::real) powr of_int 0 \<le> \<bar>sqrt 3\<bar>" by simp
    have "sqrt 3 < 2" by (rule real_less_lsqrt) simp_all
    then show "\<bar>sqrt 3\<bar> < 2 powr of_int (0 + 1)" by simp
    show "- 1022 \<le> (0::int)" by simp
    show "(1 / 2 ^ 52 :: real) = 2 powr of_int (0 - 52)" by (simp add: spacing_values)
    have "sqrt 3 / (1 / 2 ^ 52) = sqrt 3 * 2 ^ 52" by simp
    moreover have "\<bar>sqrt 3 * 2 ^ 52 - 7800463371553962\<bar> < 1 / 2"
      using sqrt_3_bounds by linarith
    ultimately show "\<bar>sqrt 3 / (1 / 2 ^ 52) - of_int 7800463371553962\<bar> < 1 / 2"
      by simp
    show "\<bar>of_int 7800463371553962 * (1 / 2 ^ 52 :: real)\<bar> < 2 ^ 1024" by simp
  qed
  then show ?thesis by simp
qed

lemma round64_square_sqrt_3:
  "round64 (7800463371553962 / 2 ^ 52 * (7800463371553962 / 2 ^ 52))
     = Fin64 (6755399441055743 / 2 ^ 51)"
proof -
  let ?x = "7800463371553962 / 2 ^ 52 * (7800463371553962 / 2 ^ 52) :: real"
  have "round64 ?x = Fin64 (of_int 6755399441055743 * (1 / 2 ^ 51))"
  proof (rule round64_eqI [where k = 1])
    show "(2::real) powr of_int 1 \<le> \<bar>?x\<bar>" by simp
    show "\<bar>?x\<bar> < 2 powr of_int (1 + 1)" by (simp add: spacing_values)
    show "- 1022 \<le> (1::int)" by simp
    show "(1 / 2 ^ 51 :: real) = 2 powr of_int (1 - 52)" by (simp add: spacing_values)
    show "\<bar>?x / (1 / 2 ^ 51) - of_int 6755399441055743\<bar> < 1 / 2" by simp
    show "\<bar>of_int 6755399441055743 * (1 / 2 ^ 51 :: real)\<bar> < 2 ^ 1024" by simp
  qed
  then show ?thesis by simp
qed

lemma round64_quotient_3:
  "round64 (3 / (6755399441055743 / 2 ^ 51)) = Fin64 (1 + 1 / 2 ^ 52)"
proof -
  let ?x = "3 / (6755399441055743 / 2 ^ 51) :: real"
  have "round64 ?x = Fin64 (of_int 4503599627370497 * (1 / 2 ^ 52))"
  proof (rule round64_eqI [where k = 0])
    show "(2::real) powr of_int 0 \<le> \<bar>?x\<bar>" by simp
    show "\<bar>?x\<bar> < 2 powr of_int (0 + 1)" by simp
    show "- 1022 \<le> (0::int)" by simp
    show "(1 / 2 ^ 52 :: real) = 2 powr of_int (0 - 52)" by (simp add: spacing_values)
    show "\<bar>?x / (1 / 2 ^ 52) - of_int 4503599627370497\<bar> < 1 / 2" by simp
    show "\<bar>of_int 4503599627370497 * (1 / 2 ^ 52 :: real)\<bar> < 2 ^ 1024" by simp
  qed
  then show ?thesis by simp
qed

lemma loop64_ones_3:
  "cosine_loop64 [Fin64 1, Fin64 1, Fin64 1] [Fin64 1, Fin64 1, Fin64 1]
     (Fin64 0, Fin64 0, Fin64 0) = (Fin64 3, Fin64 3, Fin64 3)"
  by (simp add: mul64_def round64_1 round64_2 round64_3)

lemma sqrt64_3: "sqrt64 (Fin64 3) = Fin64 (7800463371553962 / 2 ^ 52)"
  by (simp add: round64_sqrt_3 del: power_numeral)

lemma mul64_sqrt_3:
  "mul64 (Fin64 (7800463371553962 / 2 ^ 52)) (Fin64 (7800463371553962 / 2 ^ 52))
     = Fin64 (6755399441055743 / 2 ^ 51)"
  unfolding mul64_def by (simp only: prod.case float64.case round64_square_sqrt_3)

lemma div64_3:
  "div64 (Fin64 3) (Fin64 (6755399441055743 / 2 ^ 51)) = Fin64 (1 + 1 / 2 ^ 52)"
proof -
  have "(6755399441055743 / 2 ^ 51 :: real) \<noteq> 0" by simp
  then show ?thesis
    by (simp only: div64.simps if_True round64_quotient_3 simp_thms)
qed

lemma cosine64_three_ones:
  "calculateCosineSimilarity64 (Some [Fin64 1, Fin64 1, Fin64 1])
     (Some [Fin64 1, Fin64 1, Fin64 1]) = Fin64 (1 + 1 / 2 ^ 52)"
proof -
  have nz: "Fin64 (7800463371553962 / 2 ^ 52) \<noteq> Fin64 0" by simp
  have "calculateCosineSimilarity64 (Some [Fin64 1, Fin64 1, Fin64 1])
          (Some [Fin64 1, Fin64 1, Fin64 1])
          = div64 (Fin64 3) (mul64 (Fin64 (7800463371553962 / 2 ^ 52))
                                   (Fin64 (7800463371553962 / 2 ^ 52)))"
    by (rule cosine64_eval [OF _ loop64_ones_3 sqrt64_3 sqrt64_3 nz nz]) simp
  then show ?thesis
    by (simp only: mul64_sqrt_3 div64_3)
qed




subsection \<open>The text score\<close>

lemma fraction_none: "fraction (\<lambda>x. False) xs = 0"
  by (simp add: fraction_def)

lemma entity_overlap_None:
  "analysis_entities d = None \<Longrightarrow> entity_overlap d = (\<lambda>e. False)"
  by (simp add: entity_overlap_def fun_eq_iff)

lemma entity_overlap_Some:
  "analysis_entities d = Some es \<Longrightarrow>
   entity_overlap d = (\<lambda>e. toLowerCase (ent_text e) \<in> set (map (\<lambda>e. toLowerCase (ent_text e)) es))"
  by (simp add: entity_overlap_def fun_eq_iff)

text \<open>
  With at least one keyword, or for a document without text, the score is the one of the
  specification.
\<close>

lemma text_score_with_keywords:
  assumes "query_keywords pq \<noteq> [] \<or> \<not> has_text d"
  shows "calculateTextScore d pq = Num (spec_text_score d pq)"
proof (cases "analysis_entities d")
  case None
  then show ?thesis
    using assms
    by (auto simp: calculateTextScore_def spec_text_score_def has_text_def lower_text_def
          matched_fraction_def fraction_def entity_overlap_None Let_def)
next
  case (Some es)
  then show ?thesis
    using assms
    by (auto simp: calculateTextScore_def spec_text_score_def has_text_def lower_text_def
          matched_fraction_def fraction_def entity_overlap_Some Let_def)
qed

text \<open>
  Without keywords the quotient of the keyword term is \<^verbatim>\<open>0 / 0\<close>, and the score of every
  document that has text is \<^verbatim>\<open>NaN\<close>.
\<close>

lemma text_score_without_keywords:
  assumes "query_keywords pq = []" "has_text d"
  shows "calculateTextScore d pq = NaN"
  using assms
  by (cases "analysis_entities d")
     (auto simp: calculateTextScore_def has_text_def matched_fraction_def Let_def
           split: option.splits)

lemma kw_AI: "extract_keywords ''AI'' = []"
  by (simp add: extract_keywords_def char_class_defs)

text \<open>
  Claim C6 at the query \<^verbatim>\<open>AI\<close>, which has no keyword (its only word has two letters): the
  first document contains the normalized query, and its score is \<^verbatim>\<open>NaN\<close>, where the claim
  has at least 0.5.
\<close>

theorem text_score_of_short_query_is_NaN:
  "query_keywords (projr (fst (processQuery (SearchAgent example_options) ''AI'' empty_world))) = [] \<and>
   js_includes (toLowerCase ''Machine learning enables automation. AI is great!'')
     (normalized (projr (fst (processQuery (SearchAgent example_options) ''AI'' empty_world)))) \<and>
   calculateTextScore doc_a
     (projr (fst (processQuery (SearchAgent example_options) ''AI'' empty_world))) = NaN"
proof -
  have v: "vectorizer (SearchAgent example_options) = None"
    by (simp add: SearchAgent_def example_options_def)
  have k: "query_keywords (projr (fst (processQuery (SearchAgent example_options) ''AI'' empty_world))) = []"
    by (simp add: processQuery_no_encoder [OF v] kw_AI)
  have n: "normalized (projr (fst (processQuery (SearchAgent example_options) ''AI'' empty_world))) = ''ai''"
    by (simp add: processQuery_no_encoder [OF v] char_class_defs)
  have t: "has_text doc_a" by (simp add: has_text_def doc_a_def)
  show ?thesis
    using text_score_without_keywords [OF k t] k
    by (simp add: n lower_doc_a)
qed

subsection \<open>Embedding backfill\<close>

lemma promise_all_rejects:
  "m \<in> set ms \<Longrightarrow> (\<And>w. isl (fst (m w))) \<Longrightarrow> isl (fst (promise_all ms w))"
proof (induction ms arbitrary: w)
  case Nil
  then show ?case by simp
next
  case (Cons m' ms)
  show ?case
  proof (cases "m = m'")
    case True
    with Cons.prems(2) [of w] show ?thesis
      by (auto split: prod.splits sum.splits)
  next
    case False
    with Cons have tl: "isl (fst (promise_all ms w1))" for w1 by auto
    obtain r w1 where m': "m' w = (r, w1)" by (cases "m' w") auto
    obtain rs w2 where p: "promise_all ms w1 = (rs, w2)" by (cases "promise_all ms w1") auto
    from tl [of w1] p have "isl rs" by simp
    with m' p show ?thesis
      by (auto split: sum.splits)
  qed
qed

lemma backfill_rejects:
  assumes "vectorizer a = Some enc" "vector_embedding d = None"
    "enc (case extracted_text d of None \<Rightarrow> [] | Some t \<Rightarrow> t) = Inl e"
  shows "fst (backfill a d w) = Inl e"
  using assms by (simp add: backfill_def io_bind_def encode_def)

lemma backfill_Some:
  assumes "vectorizer a = Some enc"
  shows "snd (backfill a d w) = w\<lparr>io_log := io_log w @ backfill_calls [d]\<rparr>"
    and "fst (backfill a d w) = Inr d' \<Longrightarrow> d' = embedded enc d"
  using assms
  by (auto simp: backfill_def io_bind_def encode_def ok_def backfill_calls_def embedded_def
        record_event_def split: option.splits sum.splits)

lemma backfill_calls_Cons: "backfill_calls (d # ds) = backfill_calls [d] @ backfill_calls ds"
  by (simp add: backfill_calls_def)

lemma promise_all_backfill:
  assumes "vectorizer a = Some enc"
  shows "snd (promise_all (map (backfill a) ds) w) = w\<lparr>io_log := io_log w @ backfill_calls ds\<rparr> \<and>
         (\<forall>ds'. fst (promise_all (map (backfill a) ds) w) = Inr ds' \<longrightarrow> ds' = map (embedded enc) ds)"
proof (induction ds arbitrary: w)
  case Nil
  show ?case by (simp add: backfill_calls_def)
next
  case (Cons d ds)
  obtain r w1 where b: "backfill a d w = (r, w1)" by (cases "backfill a d w") auto
  obtain rs w2 where p: "promise_all (map (backfill a) ds) w1 = (rs, w2)"
    by (cases "promise_all (map (backfill a) ds) w1") auto
  have w1: "w1 = w\<lparr>io_log := io_log w @ backfill_calls [d]\<rparr>"
    using backfill_Some(1) [OF assms, of d w] b by simp
  have w2: "w2 = w1\<lparr>io_log := io_log w1 @ backfill_calls ds\<rparr>"
    using Cons [of w1] p by simp
  have r: "r = Inr d' \<Longrightarrow> d' = embedded enc d" for d'
    using backfill_Some(2) [OF assms, of d w d'] b by simp
  have rs: "rs = Inr ds' \<Longrightarrow> ds' = map (embedded enc) ds" for ds'
    using Cons [of w1] p by simp
  show ?case
    using b p w1 w2 r rs
    by (auto simp: backfill_calls_Cons [of d ds] split: sum.splits)
qed

lemma in_memory_unfold:
  assumes "agent_db a = Some h" "online h"
  shows "performInMemoryVectorSearch a pq i w =
           io_bind (promise_all (map (backfill a) (candidates h i w)))
             (\<lambda>documentsWithVectors.
                ok (js_slice0 (maxResults a)
                      (filter_and_sort (minScore a)
                         (map (\<lambda>doc. (doc, Num (calculateCosineSimilarity (query_vector pq)
                                                  (vector_embedding doc))))
                              documentsWithVectors))))
             (record_event (Find (add_filters i no_conditions) 1000) w)"
  using assms
  by (simp add: performInMemoryVectorSearch_def db_find_def io_bind_def candidates_def)

text \<open>
  Claim C4, as the code has it. When the encoder fails on one fetched document that has no
  embedding, the in-memory vector search as a whole is rejected: \<^verbatim>\<open>Promise.all\<close> passes the
  rejection on and nothing catches it, so no document is scored.
\<close>

theorem encode_failure_rejects_search:
  assumes "agent_db a = Some h" "online h" "vectorizer a = Some enc"
    and "d \<in> set (candidates h i w)" "vector_embedding d = None"
    and "enc (case extracted_text d of None \<Rightarrow> [] | Some t \<Rightarrow> t) = Inl e"
  shows "isl (fst (performInMemoryVectorSearch a pq i w))"
proof -
  have "isl (fst (backfill a d w1))" for w1
    using backfill_rejects [OF assms(3,5,6), of w1] by simp
  moreover have "backfill a d \<in> set (map (backfill a) (candidates h i w))"
    using assms(4) by simp
  ultimately have "isl (fst (promise_all (map (backfill a) (candidates h i w)) w1))" for w1
    by (rule promise_all_rejects [rotated])
  then show ?thesis
    unfolding in_memory_unfold [OF assms(1,2)] by (rule io_bind_isl_left)
qed

lemma example_db_online: "online example_db"
  by (simp add: example_db_def)

lemma candidates_example:
  "candidates example_db example_request w = take 1000 (stored w)"
  by (simp add: candidates_def add_filters_def example_request_def no_conditions_def matches_def
        passes_filters_def cursor_limit_def)

lemma encoder_agent_fields:
  "agent_db encoder_agent = Some example_db" "useVectorSearch encoder_agent"
  "vectorizer encoder_agent = Some example_encoder" "maxResults encoder_agent = 10"
  "minScore encoder_agent = 0.5"
  by (simp_all add: encoder_agent_def SearchAgent_def example_options_def)

lemma flaky_agent_fields:
  "agent_db flaky_agent = Some example_db" "useVectorSearch flaky_agent"
  "vectorizer flaky_agent = Some flaky_encoder" "maxResults flaky_agent = 10"
  "minScore flaky_agent = 0.5"
  by (simp_all add: flaky_agent_def encoder_agent_fields)

theorem encode_failure_rejects_search_witness:
  "agent_db flaky_agent = Some example_db \<and> online example_db \<and>
   vectorizer flaky_agent = Some flaky_encoder \<and>
   doc_c \<in> set (candidates example_db example_request flaky_world) \<and>
   vector_embedding doc_c = None \<and>
   flaky_encoder (case extracted_text doc_c of None \<Rightarrow> [] | Some t \<Rightarrow> t)
     = Inl (EncodeFailed ''empty text'') \<and>
   isl (fst (performInMemoryVectorSearch flaky_agent vector_pq example_request flaky_world))"
proof -
  have c: "doc_c \<in> set (candidates example_db example_request flaky_world)"
    by (simp add: candidates_example flaky_world_def)
  have e: "vector_embedding doc_c = None" by (simp add: doc_c_def)
  have f: "flaky_encoder (case extracted_text doc_c of None \<Rightarrow> [] | Some t \<Rightarrow> t)
             = Inl (EncodeFailed ''empty text'')"
    by (simp add: doc_c_def flaky_encoder_def)
  from encode_failure_rejects_search
         [OF flaky_agent_fields(1) example_db_online flaky_agent_fields(3) c e f,
          of vector_pq]
    c e f
  show ?thesis by (simp add: flaky_agent_fields example_db_online)
qed

lemma encode_doc_a:
  "example_encoder ''Machine learning enables automation. AI is great!'' = Inr [1, 0]"
  by (simp add: example_encoder_def lower_doc_a)

text \<open>
  Claim C4 as stated has the search complete with the remaining documents. With an encoder
  that fails on the empty text and a third document without text, the search ends with
  the encoder's error, although the first document was encoded and would score 1.
\<close>

theorem partial_embedding_failure_counterexample:
  "calculateCosineSimilarity (query_vector vector_pq) (Some [1, 0]) = 1 \<and>
   flaky_encoder ''Machine learning enables automation. AI is great!'' = Inr [1, 0] \<and>
   performInMemoryVectorSearch flaky_agent vector_pq example_request flaky_world
     = (Inl (EncodeFailed ''empty text''),
        flaky_world\<lparr>io_log := [Find no_conditions 1000,
                                  Encode ''Machine learning enables automation. AI is great!'',
                                  Encode []]\<rparr>)"
proof -
  have c: "candidates example_db example_request w = take 1000 (stored w)" for w
    by (rule candidates_example)
  have q: "add_filters example_request no_conditions = no_conditions"
    by (simp add: add_filters_def example_request_def)
  have cos: "calculateCosineSimilarity (query_vector vector_pq) (Some [1, 0]) = 1"
    by (simp add: vector_pq_def cosine_eq)
  have fa: "flaky_encoder ''Machine learning enables automation. AI is great!'' = Inr [1, 0]"
    by (simp add: flaky_encoder_def encode_doc_a)
  have pa: "performInMemoryVectorSearch flaky_agent vector_pq example_request flaky_world
     = (Inl (EncodeFailed ''empty text''),
        flaky_world\<lparr>io_log := [Find no_conditions 1000,
                                  Encode ''Machine learning enables automation. AI is great!'',
                                  Encode []]\<rparr>)"
    unfolding in_memory_unfold [OF flaky_agent_fields(1) example_db_online] c q
    by (simp add: flaky_world_def io_bind_def backfill_def encode_def flaky_agent_fields
          record_event_def doc_a_def doc_b_def doc_c_def encode_doc_a flaky_encoder_def ok_def)
  from cos fa pa show ?thesis by simp
qed

lemma promise_all_backfill_embedded:
  assumes "vectorizer a = Some enc"
  shows "fst (promise_all (map (backfill a) ds) w) = Inr ds' \<Longrightarrow>
         \<forall>d \<in> set ds. vector_embedding (embedded enc d) \<noteq> None"
proof (induction ds arbitrary: w ds')
  case Nil
  show ?case by simp
next
  case (Cons d ds)
  obtain r w1 where b: "backfill a d w = (r, w1)" by (cases "backfill a d w") auto
  obtain rs w2 where p: "promise_all (map (backfill a) ds) w1 = (rs, w2)"
    by (cases "promise_all (map (backfill a) ds) w1") auto
  from Cons.prems b p obtain x xs where r: "r = Inr x" and rs: "rs = Inr xs"
    by (auto split: sum.splits)
  have "vector_embedding (embedded enc d) \<noteq> None"
    using b r assms
    by (auto simp: backfill_def io_bind_def encode_def ok_def embedded_def
          split: option.splits sum.splits)
  moreover have "\<forall>d \<in> set ds. vector_embedding (embedded enc d) \<noteq> None"
    using Cons.IH [of w1 xs] p rs by simp
  ultimately show ?case by simp
qed

lemma set_js_slice0: "set (js_slice0 n xs) \<subseteq> set xs"
  by (auto simp: js_slice0_def Let_def dest: in_set_takeD)

lemma set_filter_and_sort: "set (filter_and_sort m xs) \<subseteq> set xs"
  by (auto simp: filter_and_sort_def)

lemma in_memory_world:
  assumes "agent_db a = Some h" "online h" "vectorizer a = Some enc"
  shows "snd (performInMemoryVectorSearch a pq i w)
           = w\<lparr>io_log := io_log w @ Find (add_filters i no_conditions) 1000
                            # backfill_calls (candidates h i w)\<rparr>"
proof -
  let ?w1 = "record_event (Find (add_filters i no_conditions) 1000) w"
  have "snd (promise_all (map (backfill a) (candidates h i w)) ?w1)
          = ?w1\<lparr>io_log := io_log ?w1 @ backfill_calls (candidates h i w)\<rparr>"
    using promise_all_backfill [OF assms(3)] by blast
  then show ?thesis
    unfolding in_memory_unfold [OF assms(1,2)]
    by (auto simp: io_bind_def ok_def record_event_def split: prod.splits sum.splits)
qed

lemma candidates_log: "candidates h i (w\<lparr>io_log := l\<rparr>) = candidates h i w"
  by (simp add: candidates_def)

lemma in_memory_twice:
  assumes "agent_db a = Some h" "online h" "vectorizer a = Some enc"
  shows "io_log (snd (performInMemoryVectorSearch a pq i
                        (snd (performInMemoryVectorSearch a pq i w))))
           = io_log w
             @ (Find (add_filters i no_conditions) 1000 # backfill_calls (candidates h i w))
             @ (Find (add_filters i no_conditions) 1000 # backfill_calls (candidates h i w))"
  by (simp add: in_memory_world [OF assms] candidates_log)

lemma in_memory_results:
  assumes "agent_db a = Some h" "online h" "vectorizer a = Some enc"
    and "fst (performInMemoryVectorSearch a pq i w) = Inr rs" "(d, s) \<in> set rs"
  shows "\<exists>d0 \<in> set (candidates h i w).
           d = embedded enc d0 \<and> vector_embedding d \<noteq> None \<and>
           s = Num (calculateCosineSimilarity (query_vector pq) (vector_embedding d))"
proof -
  let ?w1 = "record_event (Find (add_filters i no_conditions) 1000) w"
  let ?f = "\<lambda>doc. (doc, Num (calculateCosineSimilarity (query_vector pq) (vector_embedding doc)))"
  obtain r w2 where p: "promise_all (map (backfill a) (candidates h i w)) ?w1 = (r, w2)"
    by (cases "promise_all (map (backfill a) (candidates h i w)) ?w1") auto
  from assms(4) p obtain docs where r: "r = Inr docs"
    and rs: "rs = js_slice0 (maxResults a) (filter_and_sort (minScore a) (map ?f docs))"
    unfolding in_memory_unfold [OF assms(1,2)]
    by (auto simp: io_bind_def ok_def split: sum.splits)
  have docs: "docs = map (embedded enc) (candidates h i w)"
    using promise_all_backfill [OF assms(3), of "candidates h i w" ?w1] p r by simp
  have emb: "\<forall>d \<in> set (candidates h i w). vector_embedding (embedded enc d) \<noteq> None"
    using promise_all_backfill_embedded [OF assms(3), of "candidates h i w" ?w1 docs] p r by simp
  have "set rs \<subseteq> set (filter_and_sort (minScore a) (map ?f docs))"
    unfolding rs by (rule set_js_slice0)
  also have "\<dots> \<subseteq> set (map ?f docs)"
    by (rule set_filter_and_sort)
  finally have "(d, s) \<in> set (map ?f docs)"
    using assms(5) by (rule subsetD)
  then obtain d1 where d1: "d1 \<in> set docs" "d = d1"
    "s = Num (calculateCosineSimilarity (query_vector pq) (vector_embedding d1))"
    by auto
  from d1(1) docs obtain d0 where d0: "d0 \<in> set (candidates h i w)" "d1 = embedded enc d0"
    by auto
  from emb d0(1) have "vector_embedding (embedded enc d0) \<noteq> None" by (rule bspec)
  with d0 d1 show ?thesis by blast
qed

text \<open>
  Claim C2, as the code has it. The in-memory vector search calls the encoder once for each
  fetched document without embedding and scores the fetched copy with the result: every
  returned document carries an embedding, its own or the computed one. The search makes
  one \<^verbatim>\<open>find\<close> and no other call to the store, whose documents are the same afterwards; a
  second search makes the same calls to the encoder again.
\<close>

theorem backfill_stays_in_memory:
  assumes "agent_db a = Some h" "online h" "vectorizer a = Some enc"
  shows "stored (snd (performInMemoryVectorSearch a pq i w)) = stored w \<and>
         io_log (snd (performInMemoryVectorSearch a pq i w))
           = io_log w @ Find (add_filters i no_conditions) 1000
                        # backfill_calls (candidates h i w) \<and>
         io_log (snd (performInMemoryVectorSearch a pq i
                        (snd (performInMemoryVectorSearch a pq i w))))
           = io_log w
             @ (Find (add_filters i no_conditions) 1000 # backfill_calls (candidates h i w))
             @ (Find (add_filters i no_conditions) 1000 # backfill_calls (candidates h i w)) \<and>
         (\<forall>rs. fst (performInMemoryVectorSearch a pq i w) = Inr rs \<longrightarrow>
            (\<forall>(d, s) \<in> set rs.
               \<exists>d0 \<in> set (candidates h i w).
                 d = embedded enc d0 \<and> vector_embedding d \<noteq> None \<and>
                 s = Num (calculateCosineSimilarity (query_vector pq) (vector_embedding d))))"
proof (intro conjI allI impI)
  show "stored (snd (performInMemoryVectorSearch a pq i w)) = stored w"
    by (simp add: in_memory_world [OF assms])
  show "io_log (snd (performInMemoryVectorSearch a pq i w))
           = io_log w @ Find (add_filters i no_conditions) 1000
                        # backfill_calls (candidates h i w)"
    by (simp add: in_memory_world [OF assms])
  show "io_log (snd (performInMemoryVectorSearch a pq i
                        (snd (performInMemoryVectorSearch a pq i w))))
           = io_log w
             @ (Find (add_filters i no_conditions) 1000 # backfill_calls (candidates h i w))
             @ (Find (add_filters i no_conditions) 1000 # backfill_calls (candidates h i w))"
    by (rule in_memory_twice [OF assms])
next
  fix rs
  assume "fst (performInMemoryVectorSearch a pq i w) = Inr rs"
  from in_memory_results [OF assms this]
  show "\<forall>(d, s) \<in> set rs.
               \<exists>d0 \<in> set (candidates h i w).
                 d = embedded enc d0 \<and> vector_embedding d \<noteq> None \<and>
                 s = Num (calculateCosineSimilarity (query_vector pq) (vector_embedding d))"
    by blast
qed

lemma example_backfill_calls:
  "backfill_calls (candidates example_db example_request example_world)
     = [Encode ''Machine learning enables automation. AI is great!'']"
  by (simp add: candidates_example example_world_def backfill_calls_def doc_a_def doc_b_def)

lemma example_no_filters: "add_filters example_request no_conditions = no_conditions"
  by (simp add: add_filters_def example_request_def)

lemma example_in_memory_results:
  "fst (performInMemoryVectorSearch encoder_agent vector_pq example_request example_world)
     = Inr [(doc_a\<lparr>vector_embedding := Some [1, 0]\<rparr>, Num 1)]"
proof -
  have c1: "calculateCosineSimilarity (Some [1, 0]) (Some [1, 0]) = 1"
    by (simp add: cosine_eq)
  have c2: "calculateCosineSimilarity (Some [1, 0]) (Some [0, 1]) = 0"
    by (simp add: cosine_eq)
  show ?thesis
    unfolding in_memory_unfold [OF encoder_agent_fields(1) example_db_online] candidates_example
    by (simp add: example_world_def io_bind_def backfill_def encode_def encoder_agent_fields
          record_event_def doc_a_def doc_b_def encode_doc_a ok_def vector_pq_def c1 c2
          filter_and_sort_def js_slice0_def)
qed

theorem backfill_stays_in_memory_witness:
  "stored (snd (performInMemoryVectorSearch encoder_agent vector_pq example_request example_world))
     = [doc_a, doc_b] \<and>
   io_log (snd (performInMemoryVectorSearch encoder_agent vector_pq example_request example_world))
     = [Find no_conditions 1000, Encode ''Machine learning enables automation. AI is great!''] \<and>
   fst (performInMemoryVectorSearch encoder_agent vector_pq example_request example_world)
     = Inr [(doc_a\<lparr>vector_embedding := Some [1, 0]\<rparr>, Num 1)]"
  using backfill_stays_in_memory
          [OF encoder_agent_fields(1) example_db_online encoder_agent_fields(3),
           of vector_pq example_request example_world]
        example_in_memory_results
  by (simp add: example_backfill_calls example_no_filters) (simp add: example_world_def)

text \<open>
  Claim C2 as stated has the embedding stored and reused. After a search the first stored
  document still has no embedding, and two searches in a row encode its text twice.
\<close>

theorem backfill_not_persisted_counterexample:
  "vector_embedding doc_a = None \<and>
   stored (snd (performInMemoryVectorSearch encoder_agent vector_pq example_request example_world))
     = [doc_a, doc_b] \<and>
   io_log (snd (performInMemoryVectorSearch encoder_agent vector_pq example_request
                  (snd (performInMemoryVectorSearch encoder_agent vector_pq example_request
                          example_world))))
     = [Find no_conditions 1000, Encode ''Machine learning enables automation. AI is great!'',
        Find no_conditions 1000, Encode ''Machine learning enables automation. AI is great!'']"
proof -
  have a: "vector_embedding doc_a = None" by (simp add: doc_a_def)
  have s: "stored (snd (performInMemoryVectorSearch encoder_agent vector_pq example_request
                          example_world)) = [doc_a, doc_b]"
    by (simp add: in_memory_world [OF encoder_agent_fields(1) example_db_online
                                     encoder_agent_fields(3)])
       (simp add: example_world_def)
  have l: "io_log example_world = []" by (simp add: example_world_def)
  from a s in_memory_twice [OF encoder_agent_fields(1) example_db_online encoder_agent_fields(3),
                            of vector_pq example_request example_world]
  show ?thesis
    by (simp add: example_backfill_calls example_no_filters l)
qed

subsection \<open>Result sets\<close>

lemma non_increasing_neg_sorted:
  "sorted (map (\<lambda>x. - f x) xs) \<Longrightarrow> non_increasing (map f xs)"
  by (simp add: non_increasing_def sorted_map sorted_wrt_map)

lemma non_increasing_take: "non_increasing xs \<Longrightarrow> non_increasing (take n xs)"
  unfolding non_increasing_def by (rule sorted_wrt_take)

lemma snippets_bounded: "length (extractRelevantSnippets d pq) \<le> 3"
  by (simp add: extractRelevantSnippets_def Let_def)

lemma snippets_sorted: "non_increasing (map snippet_score (extractRelevantSnippets d pq))"
proof -
  obtain xs where x: "extractRelevantSnippets d pq = take 3 (sort_key (\<lambda>sn. - snippet_score sn) xs)"
    by (simp add: extractRelevantSnippets_def Let_def)
  have "non_increasing (map snippet_score (sort_key (\<lambda>sn. - snippet_score sn) xs))"
    by (rule non_increasing_neg_sorted) (rule sorted_sort_key)
  then have "non_increasing (take 3 (map snippet_score (sort_key (\<lambda>sn. - snippet_score sn) xs)))"
    by (rule non_increasing_take)
  then show ?thesis
    unfolding x by (simp only: take_map)
qed

lemma filter_and_sort_sorted:
  "non_increasing (map (\<lambda>(d, s). score_value s) (filter_and_sort m xs))"
proof -
  have "sorted (map (\<lambda>(d, s). - score_value s) (filter_and_sort m xs))"
    unfolding filter_and_sort_def by (rule sorted_sort_key)
  then have "sorted (map (\<lambda>p. - (case p of (d, s) \<Rightarrow> score_value s)) (filter_and_sort m xs))"
    by (simp add: case_prod_unfold)
  then show ?thesis by (rule non_increasing_neg_sorted)
qed

lemma filter_and_sort_set:
  "set (filter_and_sort m xs) = {(d, s) \<in> set xs. js_ge s m}"
  by (auto simp: filter_and_sort_def)

lemma filter_and_sort_length: "length (filter_and_sort m xs) \<le> length xs"
  by (simp add: filter_and_sort_def)

lemma js_ge_Num: "js_ge s m \<Longrightarrow> \<exists>x. s = Num x \<and> m \<le> x"
  by (cases s) auto

lemma rankResults_scores:
  "map (\<lambda>r. score_value (score r)) (rankResults a rs pq)
     = map (\<lambda>(d, s). score_value s) (filter_and_sort (minScore a) rs)"
  by (simp add: rankResults_def case_prod_unfold comp_def)

lemma rankResults_sorted:
  "non_increasing (map (\<lambda>r. score_value (score r)) (rankResults a rs pq))"
  unfolding rankResults_scores by (rule filter_and_sort_sorted)

lemma rankResults_length: "length (rankResults a rs pq) \<le> length rs"
  by (simp add: rankResults_def filter_and_sort_length)

lemma rankResults_member:
  assumes "r \<in> set (rankResults a rs pq)"
  shows "\<exists>d x. (d, Num x) \<in> set rs \<and> minScore a \<le> x \<and> score r = Num x \<and>
               snippets r = extractRelevantSnippets d pq"
proof -
  from assms obtain d s where ds: "(d, s) \<in> set (filter_and_sort (minScore a) rs)"
    and r: "score r = s" "snippets r = extractRelevantSnippets d pq"
    by (auto simp: rankResults_def)
  from ds have "(d, s) \<in> set rs" "js_ge s (minScore a)"
    by (simp_all add: filter_and_sort_set)
  with js_ge_Num [of s "minScore a"] r show ?thesis by auto
qed

lemma take_floor_length:
  fixes n :: real
  assumes "0 \<le> n"
  shows "real (length (take (nat \<lfloor>n\<rfloor>) xs)) \<le> n"
proof -
  have "real (length (take (nat \<lfloor>n\<rfloor>) xs)) \<le> real (nat \<lfloor>n\<rfloor>)"
    by simp
  also have "\<dots> = of_int \<lfloor>n\<rfloor>"
    using assms by simp
  also have "\<dots> \<le> n" by (rule of_int_floor_le)
  finally show ?thesis .
qed

lemma cursor_limit_length: "0 < n \<Longrightarrow> real (length (cursor_limit n xs)) \<le> n"
  using take_floor_length [of n xs] by (simp add: cursor_limit_def)

lemma js_slice0_length: "0 \<le> n \<Longrightarrow> real (length (js_slice0 n xs)) \<le> n"
  using take_floor_length [of n xs] by (simp add: js_slice0_def Let_def)

lemma js_min1_le: "js_min1 s = Num x \<Longrightarrow> x \<le> 1"
  by (cases s) auto

lemma calculateTextScore_le: "calculateTextScore d pq = Num x \<Longrightarrow> x \<le> 1"
  unfolding calculateTextScore_def Let_def by (rule js_min1_le)

lemma calculateTextScore_ge: "calculateTextScore d pq = Num x \<Longrightarrow> 0 \<le> x"
  by (auto simp: calculateTextScore_def Let_def matched_fraction_def
           split: option.splits if_splits)

lemma text_length:
  assumes "0 < maxResults a" "performTextSearch a pq i w = (Inr rs, w')"
  shows "real (length rs) \<le> maxResults a"
proof (cases "agent_db a")
  case None
  with assms(2) show ?thesis by (simp add: performTextSearch_def throw_def)
next
  case (Some h)
  let ?q = "add_filters i \<lparr> q_text = Some (normalized pq, query_keywords pq),
                               q_agent = None, q_created_at = None \<rparr>"
  from assms(2) Some
  have rs: "rs = map (\<lambda>result. (result, calculateTextScore result pq))
                   (cursor_limit (maxResults a) (filter (matches h ?q) (stored w)))"
    by (auto simp: performTextSearch_def io_bind_def db_find_def ok_def split: if_splits)
  show ?thesis
    unfolding rs using cursor_limit_length [OF assms(1)] by simp
qed

lemma text_scores:
  assumes "performTextSearch a pq i w = (Inr rs, w')" "(d, Num x) \<in> set rs"
  shows "0 \<le> x \<and> x \<le> 1"
proof -
  from assms have "calculateTextScore d pq = Num x"
    by (auto simp: performTextSearch_def io_bind_def db_find_def ok_def throw_def
          split: option.splits if_splits)
  then show ?thesis
    using calculateTextScore_ge calculateTextScore_le by blast
qed

lemma in_memory_length:
  assumes "0 \<le> maxResults a" "performInMemoryVectorSearch a pq i w = (Inr rs, w')"
  shows "real (length rs) \<le> maxResults a"
proof (cases "agent_db a")
  case None
  with assms(2) show ?thesis by (simp add: performInMemoryVectorSearch_def throw_def)
next
  case (Some h)
  let ?f = "\<lambda>doc. (doc, Num (calculateCosineSimilarity (query_vector pq) (vector_embedding doc)))"
  from assms(2) Some obtain docs where
    rs: "rs = js_slice0 (maxResults a) (filter_and_sort (minScore a) (map ?f docs))"
    by (auto simp: performInMemoryVectorSearch_def io_bind_def db_find_def ok_def
          split: if_splits prod.splits sum.splits)
  show ?thesis
    unfolding rs using assms(1) by (rule js_slice0_length)
qed

lemma mongo_length:
  assumes "0 \<le> maxResults a" "agent_db a = Some h" "index_respects_limit h"
    and "performMongoDBVectorSearch a pq i w = (Inr rs, w')"
  shows "real (length rs) \<le> maxResults a"
proof -
  let ?stage = "\<lparr> queryVector = query_vector pq, numCandidates = maxResults a * 10,
                   stage_limit = maxResults a \<rparr>"
  let ?ds = "filter (passes_filters (add_filters i no_conditions)) (stored w)"
  from assms(2,4) have rs: "rs = map (\<lambda>(s, d). (d, Num s)) (vector_index_search h ?stage ?ds)"
    by (auto simp: performMongoDBVectorSearch_def io_bind_def db_aggregate_def ok_def
          split: if_splits)
  from assms(3)
  have "real (length (vector_index_search h ?stage ?ds)) \<le> max 0 (stage_limit ?stage)"
    unfolding index_respects_limit_def by blast
  with assms(1) show ?thesis
    unfolding rs by simp
qed

lemma vector_length:
  assumes "0 \<le> maxResults a" "agent_db a = Some h" "index_respects_limit h"
    and "performVectorSearch a pq i w = (Inr rs, w')"
  shows "real (length rs) \<le> maxResults a"
proof -
  from assms(2,4) obtain w1 where
    "performMongoDBVectorSearch a pq i w1 = (Inr rs, w') \<or>
     performInMemoryVectorSearch a pq i w1 = (Inr rs, w')"
    by (auto simp: performVectorSearch_def io_bind_def db_listCollections_def throw_def
          split: option.splits if_splits)
  then show ?thesis
    using mongo_length [OF assms(1,2,3)] in_memory_length [OF assms(1)] by blast
qed

lemma process_impl_results:
  assumes "process_impl a i w = (Inr out, w')"
  shows "\<exists>pq rs w1 w2. results out = rankResults a rs pq \<and>
           (performTextSearch a pq i w1 = (Inr rs, w2) \<or>
            performVectorSearch a pq i w1 = (Inr rs, w2))"
proof (cases "agent_db a")
  case None
  with assms show ?thesis by (simp add: process_impl_def throw_def)
next
  case (Some h)
  show ?thesis
  proof (cases "query i")
    case (JString q)
    obtain r1 w1 where p: "processQuery a q w = (r1, w1)" by (cases "processQuery a q w") auto
    show ?thesis
    proof (cases r1)
      case (Inl e)
      with assms Some JString p show ?thesis by (simp add: process_impl_def io_bind_def)
    next
      case (Inr pq)
      let ?search = "if useVectorSearch a \<and> vectorizer a \<noteq> None
                     then performVectorSearch a pq i else performTextSearch a pq i"
      obtain r2 w2 where s: "?search w1 = (r2, w2)" by (cases "?search w1") auto
      show ?thesis
      proof (cases r2)
        case (Inl e)
        with assms Some JString p \<open>r1 = Inr pq\<close> s show ?thesis
          by (simp add: process_impl_def io_bind_def)
      next
        case r2: (Inr rs)
        with assms Some JString p \<open>r1 = Inr pq\<close> s
        have "results out = rankResults a rs pq"
          by (auto simp: process_impl_def io_bind_def ok_def Let_def)
        moreover from s r2 have "performTextSearch a pq i w1 = (Inr rs, w2) \<or>
            performVectorSearch a pq i w1 = (Inr rs, w2)"
          by (auto split: if_splits)
        ultimately show ?thesis by blast
      qed
    qed
  qed (use assms Some in \<open>simp_all add: process_impl_def throw_def\<close>)
qed

text \<open>
  Order and size of a result set, whatever the range of the scores: for a result cap that
  is a positive whole number, over a store whose vector index respects the limit of the
  stage, every result set of \<^verbatim>\<open>_process\<close> is in non-increasing order of score, has at most
  \<open>maxResults\<close> results, each with a score that is a number not below the minimum score and
  with at most 3 snippets in non-increasing order of score.
\<close>

lemma result_set_order_and_size:
  assumes "maxResults a = real k" "0 < k" "agent_db a = Some h" "index_respects_limit h"
    and "process_impl a i w = (Inr out, w')"
  shows "(\<forall>r \<in> set (results out).
            (\<exists>x. score r = Num x \<and> minScore a \<le> x) \<and>
            length (snippets r) \<le> 3 \<and>
            non_increasing (map snippet_score (snippets r))) \<and>
         non_increasing (map (\<lambda>r. score_value (score r)) (results out)) \<and>
         length (results out) \<le> k"
proof -
  have pos: "0 < maxResults a" using assms(1,2) by simp
  from process_impl_results [OF assms(5)] obtain pq rs w1 w2
    where res: "results out = rankResults a rs pq"
      and search: "performTextSearch a pq i w1 = (Inr rs, w2) \<or>
                   performVectorSearch a pq i w1 = (Inr rs, w2)"
    by blast
  from search have len: "real (length rs) \<le> maxResults a"
    using text_length [OF pos] vector_length [OF _ assms(3,4)] pos
    by (auto simp: less_imp_le)
  have "(\<exists>x. score r = Num x \<and> minScore a \<le> x) \<and> length (snippets r) \<le> 3 \<and>
        non_increasing (map snippet_score (snippets r))"
    if "r \<in> set (results out)" for r
  proof -
    from that res rankResults_member [of r a rs pq] obtain d x
      where m: "(d, Num x) \<in> set rs" "minScore a \<le> x" "score r = Num x"
        "snippets r = extractRelevantSnippets d pq"
      by auto
    then show ?thesis
      by (simp add: snippets_bounded snippets_sorted)
  qed
  moreover have "non_increasing (map (\<lambda>r. score_value (score r)) (results out))"
    unfolding res by (rule rankResults_sorted)
  moreover have "length (results out) \<le> k"
    using rankResults_length [of a rs pq] len assms(1) unfolding res by simp
  ultimately show ?thesis by blast
qed

text \<open>
  The text strategy keeps its scores between 0 and 1: \<^verbatim>\<open>calculateTextScore\<close> ends with
  \<^verbatim>\<open>Math.min(1, score)\<close>. The vector strategy has no such step.
\<close>

lemma text_strategy_scores_in_range:
  assumes "performTextSearch a pq i w = (Inr rs, w')"
    and "r \<in> set (rankResults a rs pq)"
  shows "\<exists>x. score r = Num x \<and> 0 \<le> x \<and> x \<le> 1"
proof -
  from rankResults_member [OF assms(2)] obtain d x
    where "(d, Num x) \<in> set rs" "score r = Num x" by blast
  with text_scores [OF assms(1)] show ?thesis by blast
qed

lemma negative_agent_fields:
  "agent_db negative_agent = Some example_db" "useVectorSearch negative_agent"
  "vectorizer negative_agent = Some example_encoder" "maxResults negative_agent = 10"
  "minScore negative_agent = - 1"
  by (simp_all add: negative_agent_def SearchAgent_def example_options_def)

lemma process_impl_vector:
  assumes "agent_db a = Some h" "query i = JString q"
    and "useVectorSearch a" "vectorizer a = Some enc"
    and "processQuery a q w = (Inr pq, w1)"
    and "performVectorSearch a pq i w1 = (Inr rs, w2)"
  shows "process_impl a i w =
           (Inr \<lparr> out_query = q, processed_query = pq, results = rankResults a rs pq,
                  total_results = length (rankResults a rs pq),
                  search_type = ''vector'' \<rparr>, w2)"
  by (simp add: process_impl_def assms io_bind_def ok_def Let_def)

lemma processQuery_encoded:
  assumes "vectorizer a = Some enc" "enc q = Inr v"
  shows "processQuery a q w =
     (Inr \<lparr> original = q, normalized = toLowerCase q, query_keywords = extract_keywords q,
            entities = extract_entities q, query_intent = detect_intent q,
            query_vector = Some v \<rparr>, record_event (Encode q) w)"
  by (simp add: processQuery_def io_bind_def ok_def encode_def assms)

lemma performVectorSearch_no_index:
  assumes "agent_db a = Some h" "online h" "vectorizer a = Some enc"
    and "\<not> hasVectorIndex (collection_infos h)"
  shows "performVectorSearch a pq i w
           = performInMemoryVectorSearch a pq i (record_event ListCollections w)"
  by (simp add: performVectorSearch_def io_bind_def db_listCollections_def assms)

lemma example_no_index: "\<not> hasVectorIndex (collection_infos example_db)"
  by (simp add: example_db_def hasVectorIndex_def)

lemma encode_query: "example_encoder ''machine learning'' = Inr [1, 0]"
  by (simp add: example_encoder_def lower_machine_learning)

lemma negative_in_memory:
  assumes "query_vector pq = Some [1, 0]" "stored w = [doc_d, doc_a]"
  shows "fst (performInMemoryVectorSearch negative_agent pq example_request w)
           = Inr [(doc_a\<lparr>vector_embedding := Some [1, 0]\<rparr>, Num 1), (doc_d, Num (- 1))]"
proof -
  have c1: "calculateCosineSimilarity (Some [1, 0]) (Some [1, 0]) = 1"
    by (simp add: cosine_eq)
  have c2: "calculateCosineSimilarity (Some [1, 0]) (Some [- 1, 0]) = - 1"
    by (simp add: cosine_eq)
  have d: "vector_embedding doc_d = Some [- 1, 0]" "vector_embedding doc_a = None"
    "extracted_text doc_a = Some ''Machine learning enables automation. AI is great!''"
    by (simp_all add: doc_d_def doc_a_def)
  have b1: "backfill negative_agent doc_d w1 = (Inr doc_d, w1)" for w1
    by (simp add: backfill_def d ok_def)
  have b2: "backfill negative_agent doc_a w1
              = (Inr (doc_a\<lparr>vector_embedding := Some [1, 0]\<rparr>),
                 record_event (Encode ''Machine learning enables automation. AI is great!'') w1)"
    for w1
    by (simp add: backfill_def d io_bind_def encode_def negative_agent_fields encode_doc_a ok_def)
  show ?thesis
    unfolding in_memory_unfold [OF negative_agent_fields(1) example_db_online] candidates_example
    by (simp add: assms io_bind_def b1 b2 ok_def c1 c2 d negative_agent_fields
          filter_and_sort_def js_slice0_def)
qed

text \<open>
  The same two vectors, and a vector of three ones with itself, in double precision: the
  first similarity is exactly -1, the second is the double above 1.
\<close>

lemma round64_minus_1: "round64 (- 1) = Fin64 (- 1)"
proof -
  have "round64 (- 1) = Fin64 (of_int (- (2 ^ 52)) * (1 / 2 ^ 52))"
  proof (rule round64_eqI [where k = 0])
    show "(2::real) powr of_int 0 \<le> \<bar>- 1\<bar>" by simp
    show "\<bar>- 1::real\<bar> < 2 powr of_int (0 + 1)" by simp
    show "- 1022 \<le> (0::int)" by simp
    show "(1 / 2 ^ 52 :: real) = 2 powr of_int (0 - 52)" by (simp add: spacing_values)
    show "\<bar>(- 1::real) / (1 / 2 ^ 52) - of_int (- (2 ^ 52))\<bar> < 1 / 2" by simp
    show "\<bar>of_int (- (2 ^ 52)) * (1 / 2 ^ 52 :: real)\<bar> < 2 ^ 1024" by simp
  qed
  then show ?thesis by simp
qed

lemma loop64_opposite:
  "cosine_loop64 [Fin64 1, Fin64 0] [Fin64 (- 1), Fin64 0] (Fin64 0, Fin64 0, Fin64 0)
     = (Fin64 (- 1), Fin64 1, Fin64 1)"
  by (simp add: mul64_def round64_1 round64_minus_1)

lemma sqrt64_1: "sqrt64 (Fin64 1) = Fin64 1"
  by (simp add: round64_1)

lemma cosine64_opposite:
  "calculateCosineSimilarity64 (Some [Fin64 1, Fin64 0]) (Some [Fin64 (- 1), Fin64 0])
     = Fin64 (- 1)"
proof -
  have nz: "Fin64 1 \<noteq> Fin64 0" by simp
  have "calculateCosineSimilarity64 (Some [Fin64 1, Fin64 0]) (Some [Fin64 (- 1), Fin64 0])
          = div64 (Fin64 (- 1)) (mul64 (Fin64 1) (Fin64 1))"
    by (rule cosine64_eval [OF _ loop64_opposite sqrt64_1 sqrt64_1 nz nz]) simp
  then show ?thesis
    by (simp add: mul64_def round64_1 round64_minus_1)
qed

text \<open>
  Claim C5 has every score of a result set between 0 and 1. At an agent with the minimum
  score -1, whose store holds a document with an embedding opposite to the embedding of the
  query, \<^verbatim>\<open>calculateCosineSimilarity\<close> gives -1, nothing clamps it, and the result set of
  \<^verbatim>\<open>_process\<close> holds the score -1; the value is the same in double precision. In double
  precision the similarity of \<^verbatim>\<open>[1, 1, 1]\<close> and itself is 1.0000000000000002, above 1 and
  above every minimum score up to 1, the default 0.5 among them.
\<close>

theorem vector_scores_leave_unit_interval:
  "minScore negative_agent = - 1 \<and>
   map (\<lambda>r. (result_id r, score r))
       (results (projr (fst (process_impl negative_agent example_request negative_world))))
     = [(1, Num 1), (4, Num (- 1))] \<and>
   calculateCosineSimilarity64 (Some [Fin64 1, Fin64 0]) (Some [Fin64 (- 1), Fin64 0])
     = Fin64 (- 1) \<and>
   calculateCosineSimilarity64 (Some [Fin64 1, Fin64 1, Fin64 1])
     (Some [Fin64 1, Fin64 1, Fin64 1]) = Fin64 (1 + 1 / 2 ^ 52)"
proof -
  let ?pq = "\<lparr> original = ''machine learning'', normalized = toLowerCase ''machine learning'',
               query_keywords = extract_keywords ''machine learning'',
               entities = extract_entities ''machine learning'',
               query_intent = detect_intent ''machine learning'',
               query_vector = Some [1, 0] \<rparr>"
  let ?w1 = "record_event (Encode ''machine learning'') negative_world"
  let ?rs = "[(doc_a\<lparr>vector_embedding := Some [1, 0]\<rparr>, Num 1), (doc_d, Num (- 1))]"
  have q: "query example_request = JString ''machine learning''"
    by (simp add: example_request_def)
  have pq: "processQuery negative_agent ''machine learning'' negative_world = (Inr ?pq, ?w1)"
    by (rule processQuery_encoded [OF negative_agent_fields(3) encode_query])
  have st: "stored (record_event ListCollections ?w1) = [doc_d, doc_a]"
    by (simp add: record_event_def negative_world_def)
  have "fst (performVectorSearch negative_agent ?pq example_request ?w1) = Inr ?rs"
    unfolding performVectorSearch_no_index
                [OF negative_agent_fields(1) example_db_online negative_agent_fields(3)
                    example_no_index]
    by (rule negative_in_memory) (simp_all add: st)
  then obtain w2 where vs: "performVectorSearch negative_agent ?pq example_request ?w1 = (Inr ?rs, w2)"
    by (cases "performVectorSearch negative_agent ?pq example_request ?w1") auto
  have rk: "map (\<lambda>r. (result_id r, score r)) (rankResults negative_agent ?rs ?pq)
              = [(1, Num 1), (4, Num (- 1))]"
    by (simp add: rankResults_def filter_and_sort_def negative_agent_fields doc_a_def doc_d_def)
  from process_impl_vector
         [OF negative_agent_fields(1) q negative_agent_fields(2,3) pq vs] rk
  have "minScore negative_agent = - 1 \<and>
        map (\<lambda>r. (result_id r, score r))
            (results (projr (fst (process_impl negative_agent example_request negative_world))))
          = [(1, Num 1), (4, Num (- 1))]"
    by (simp add: negative_agent_fields)
  with cosine64_opposite cosine64_three_ones show ?thesis
    by (simp only: simp_thms)
qed

end
